theory Spec2Isabelle
  imports Complex_Main
begin

section \<open>Data model (shared/schema.ts)\<close>

text \<open>
  Timestamps (\<open>Date\<close>) are the integer number of milliseconds since the epoch
  (\<open>getTime()\<close>). The \<open>real\<close> columns hold JavaScript numbers; their type is the parameter
  \<open>'n\<close>, and the arithmetic on them is a parameter of the code that computes with them.
  The integer columns (streaks, durations) are integers. A nullable column is an \<open>option\<close>.
  Field names carry a prefix where two tables of the schema use the same name.
\<close>

record 'n User =
  u_id :: string
  username :: string
  email :: string
  firstName :: string
  lastName :: string
  password :: string
  fitnessGoals :: "string list option"
  currentWeight :: "'n option"
  targetWeight :: "'n option"
  workoutFrequency :: "int option"
  currentStreak :: "int option"
  longestStreak :: "int option"
  u_createdAt :: "int option"

text \<open>\<open>InsertUser\<close>: the user columns without id, the two streaks and createdAt.\<close>

record 'n InsertUser =
  iu_username :: string
  iu_email :: string
  iu_firstName :: string
  iu_lastName :: string
  iu_password :: string
  iu_fitnessGoals :: "string list option"
  iu_currentWeight :: "'n option"
  iu_targetWeight :: "'n option"
  iu_workoutFrequency :: "int option"

text \<open>
  \<open>Partial<T>\<close>: every field may be supplied or not. \<open>None\<close> is a field that the
  object does not have; \<open>Some v\<close> is a supplied value (for a nullable column \<open>v\<close> is itself
  an option, \<open>Some None\<close> being an explicit null).
\<close>

record 'n PartialUser =
  pu_id :: "string option"
  pu_username :: "string option"
  pu_email :: "string option"
  pu_firstName :: "string option"
  pu_lastName :: "string option"
  pu_password :: "string option"
  pu_fitnessGoals :: "string list option option"
  pu_currentWeight :: "'n option option"
  pu_targetWeight :: "'n option option"
  pu_workoutFrequency :: "int option option"
  pu_currentStreak :: "int option option"
  pu_longestStreak :: "int option option"
  pu_createdAt :: "int option option"

record Workout =
  w_id :: string
  w_userId :: string
  w_name :: string
  w_type :: string
  w_duration :: int
  w_exercises :: string
  w_notes :: "string option"
  w_createdAt :: "int option"

record InsertWorkout =
  iw_userId :: string
  iw_name :: string
  iw_type :: string
  iw_duration :: int
  iw_exercises :: string
  iw_notes :: "string option"

record PartialWorkout =
  pw_id :: "string option"
  pw_userId :: "string option"
  pw_name :: "string option"
  pw_type :: "string option"
  pw_duration :: "int option"
  pw_exercises :: "string option"
  pw_notes :: "string option option"
  pw_createdAt :: "int option option"

record 'n HealthMetrics =
  hm_id :: string
  hm_userId :: string
  hm_weight :: "'n option"
  hm_sleepHours :: "'n option"
  hm_sleepQuality :: "string option"
  hm_waterIntake :: "int option"
  hm_notes :: "string option"
  hm_createdAt :: "int option"

record 'n InsertHealthMetrics =
  ihm_userId :: string
  ihm_weight :: "'n option"
  ihm_sleepHours :: "'n option"
  ihm_sleepQuality :: "string option"
  ihm_waterIntake :: "int option"
  ihm_notes :: "string option"

record ScheduledWorkout =
  sw_id :: string
  sw_userId :: string
  sw_name :: string
  sw_type :: string
  sw_scheduledDate :: int
  sw_duration :: int
  sw_completed :: "int option"
  sw_createdAt :: "int option"

record InsertScheduledWorkout =
  isw_userId :: string
  isw_name :: string
  isw_type :: string
  isw_scheduledDate :: int
  isw_duration :: int

record PartialScheduledWorkout =
  psw_id :: "string option"
  psw_userId :: "string option"
  psw_name :: "string option"
  psw_type :: "string option"
  psw_scheduledDate :: "int option"
  psw_duration :: "int option"
  psw_completed :: "int option option"
  psw_createdAt :: "int option option"

section \<open>JavaScript primitives used by the server\<close>

subsection \<open>\<open>Map\<close>: keyed entries in insertion order\<close>

text \<open>
  A \<open>Map\<close> iterates in insertion order; \<open>set\<close> on a key that is present replaces the value
  where it stands, \<open>set\<close> on a new key appends, \<open>delete\<close> reports whether the key was there.
\<close>

fun mapGet :: "('k \<times> 'v) list \<Rightarrow> 'k \<Rightarrow> 'v option" where
  "mapGet [] k = None"
| "mapGet ((k', v) # m) k = (if k' = k then Some v else mapGet m k)"

fun mapSet :: "'k \<Rightarrow> 'v \<Rightarrow> ('k \<times> 'v) list \<Rightarrow> ('k \<times> 'v) list" where
  "mapSet k v [] = [(k, v)]"
| "mapSet k v ((k', v') # m) = (if k' = k then (k, v) # m else (k', v') # mapSet k v m)"

fun mapDelete :: "'k \<Rightarrow> ('k \<times> 'v) list \<Rightarrow> ('k \<times> 'v) list" where
  "mapDelete k [] = []"
| "mapDelete k ((k', v) # m) = (if k' = k then mapDelete k m else (k', v) # mapDelete k m)"

definition mapHas :: "('k \<times> 'v) list \<Rightarrow> 'k \<Rightarrow> bool" where
  "mapHas m k = (mapGet m k \<noteq> None)"

definition mapValues :: "('k \<times> 'v) list \<Rightarrow> 'v list" where
  "mapValues m = map snd m"

subsection \<open>\<open>Array.prototype.sort\<close> with a numeric comparator\<close>

text \<open>
  \<open>sort\<close> is stable. With the comparator \<open>(a, b) => key(a) - key(b)\<close> it orders by ascending
  key, with \<open>(a, b) => key(b) - key(a)\<close> by descending key; elements with equal keys keep
  their order.
\<close>

definition sortAscending :: "('a \<Rightarrow> int) \<Rightarrow> 'a list \<Rightarrow> 'a list" where
  "sortAscending key xs = sort_key key xs"

definition sortDescending :: "('a \<Rightarrow> int) \<Rightarrow> 'a list \<Rightarrow> 'a list" where
  "sortDescending key xs = sort_key (\<lambda>x. - key x) xs"

subsection \<open>Numbers\<close>

text \<open>
  The operations of JavaScript numbers that the server applies to weights: truthiness
  (\<open>0\<close>, \<open>-0\<close> and \<open>NaN\<close> are falsy), \<open>-\<close>, \<open>*\<close>, \<open>/\<close>, \<open>Math.round\<close>, and the number that
  an integer literal denotes. They are IEEE double operations in the runtime; the model
  takes them as a parameter and assumes nothing about them.
\<close>

record 'n NumberOps =
  nFalsy :: "'n \<Rightarrow> bool"
  nSub :: "'n \<Rightarrow> 'n \<Rightarrow> 'n"
  nMul :: "'n \<Rightarrow> 'n \<Rightarrow> 'n"
  nDiv :: "'n \<Rightarrow> 'n \<Rightarrow> 'n"
  nRound :: "'n \<Rightarrow> 'n"
  nLiteral :: "int \<Rightarrow> 'n"

text \<open>\<open>null\<close> and \<open>undefined\<close> are falsy; \<open>a || b\<close> is \<open>a\<close> when \<open>a\<close> is truthy, else \<open>b\<close>.\<close>

definition truthy :: "'n NumberOps \<Rightarrow> 'n option \<Rightarrow> bool" where
  "truthy ops x = (case x of None \<Rightarrow> False | Some v \<Rightarrow> \<not> nFalsy ops v)"

definition orElse :: "'n NumberOps \<Rightarrow> 'n option \<Rightarrow> 'n option \<Rightarrow> 'n option" where
  "orElse ops a b = (if truthy ops a then a else b)"

definition orNumber :: "'n NumberOps \<Rightarrow> 'n option \<Rightarrow> 'n \<Rightarrow> 'n" where
  "orNumber ops a b = (case a of None \<Rightarrow> b | Some v \<Rightarrow> if nFalsy ops v then b else v)"

text \<open>\<open>Math.round(x * 10) / 10\<close>.\<close>

definition roundTenth :: "'n NumberOps \<Rightarrow> 'n \<Rightarrow> 'n" where
  "roundTenth ops x = nDiv ops (nRound ops (nMul ops x (nLiteral ops 10))) (nLiteral ops 10)"

text \<open>\<open>x || 0\<close> on a nullable integer column.\<close>

definition orZero :: "int option \<Rightarrow> int" where
  "orZero a = (case a of None \<Rightarrow> 0 | Some v \<Rightarrow> v)"

subsection \<open>Dates\<close>

definition msPerDay :: int where
  "msPerDay = 1000 * 60 * 60 * 24"

text \<open>\<open>new Date(d).getTime()\<close> for a nullable timestamp: \<open>new Date(null)\<close> is the epoch.\<close>

definition dateOf :: "int option \<Rightarrow> int" where
  "dateOf d = (case d of None \<Rightarrow> 0 | Some t \<Rightarrow> t)"

text \<open>
  The time zone of the server, as ECMAScript's \<open>LocalTZA\<close>: the offset of local time from
  UTC in milliseconds, for a UTC instant (\<open>tzaOfUtc\<close>) and for a local time (\<open>tzaOfLocal\<close>).
  \<open>LocalTime(t) = t + LocalTZA(t, true)\<close> and \<open>UTC(t) = t - LocalTZA(t, false)\<close>.
\<close>

record TimeZone =
  tzaOfUtc :: "int \<Rightarrow> int"
  tzaOfLocal :: "int \<Rightarrow> int"

definition localTime :: "TimeZone \<Rightarrow> int \<Rightarrow> int" where
  "localTime z t = t + tzaOfUtc z t"

definition utcOfLocal :: "TimeZone \<Rightarrow> int \<Rightarrow> int" where
  "utcOfLocal z t = t - tzaOfLocal z t"

text \<open>
  \<open>d.setHours(0, 0, 0, 0)\<close>: the local time of \<open>d\<close> is cut to the start of its local day
  (\<open>MakeDate(Day(t), 0)\<close>) and converted back to UTC.
\<close>

definition setHours0 :: "TimeZone \<Rightarrow> int \<Rightarrow> int" where
  "setHours0 z t = utcOfLocal z (localTime z t - localTime z t mod msPerDay)"

text \<open>
  \<open>d.setDate(d.getDate() - 7)\<close>: the same local time of day, seven local days earlier,
  converted back to UTC.
\<close>

definition setDateMinus7 :: "TimeZone \<Rightarrow> int \<Rightarrow> int" where
  "setDateMinus7 z t = utcOfLocal z (localTime z t - 7 * msPerDay)"

section \<open>The in-memory store (server/storage.ts)\<close>

record 'n MemStorage =
  users :: "(string \<times> 'n User) list"
  workouts :: "(string \<times> Workout) list"
  healthMetrics :: "(string \<times> 'n HealthMetrics) list"
  scheduledWorkouts :: "(string \<times> ScheduledWorkout) list"

definition newMemStorage :: "'n MemStorage" where
  "newMemStorage = \<lparr>users = [], workouts = [], healthMetrics = [], scheduledWorkouts = []\<rparr>"

text \<open>
  Each method that reads the clock or draws a UUID takes the value read as an argument
  (\<open>now\<close>, \<open>newId\<close>); a method that cuts a date to its day takes the server's zone. A
  method that mutates the store returns its result and the new store.
\<close>

text \<open>The object spread \<open>{ ...old, ...updates }\<close>, field by field: a supplied field wins.\<close>

definition spread :: "'a \<Rightarrow> 'a option \<Rightarrow> 'a" where
  "spread old supplied = (case supplied of None \<Rightarrow> old | Some v \<Rightarrow> v)"

subsection \<open>Users\<close>

definition getUser :: "string \<Rightarrow> 'n MemStorage \<Rightarrow> 'n User option" where
  "getUser uid s = mapGet (users s) uid"

definition createUser ::
  "string \<Rightarrow> int \<Rightarrow> 'n InsertUser \<Rightarrow> 'n MemStorage \<Rightarrow> 'n User \<times> 'n MemStorage" where
  "createUser newId now insertUser s =
    (let user = \<lparr>u_id = newId,
                  username = iu_username insertUser,
                  email = iu_email insertUser,
                  firstName = iu_firstName insertUser,
                  lastName = iu_lastName insertUser,
                  password = iu_password insertUser,
                  fitnessGoals = iu_fitnessGoals insertUser,
                  currentWeight = iu_currentWeight insertUser,
                  targetWeight = iu_targetWeight insertUser,
                  workoutFrequency = iu_workoutFrequency insertUser,
                  currentStreak = Some 0,
                  longestStreak = Some 0,
                  u_createdAt = Some now\<rparr>
     in (user, s\<lparr>users := mapSet newId user (users s)\<rparr>))"

definition spreadUser :: "'n User \<Rightarrow> 'n PartialUser \<Rightarrow> 'n User" where
  "spreadUser user updates =
    \<lparr>u_id = spread (u_id user) (pu_id updates),
     username = spread (username user) (pu_username updates),
     email = spread (email user) (pu_email updates),
     firstName = spread (firstName user) (pu_firstName updates),
     lastName = spread (lastName user) (pu_lastName updates),
     password = spread (password user) (pu_password updates),
     fitnessGoals = spread (fitnessGoals user) (pu_fitnessGoals updates),
     currentWeight = spread (currentWeight user) (pu_currentWeight updates),
     targetWeight = spread (targetWeight user) (pu_targetWeight updates),
     workoutFrequency = spread (workoutFrequency user) (pu_workoutFrequency updates),
     currentStreak = spread (currentStreak user) (pu_currentStreak updates),
     longestStreak = spread (longestStreak user) (pu_longestStreak updates),
     u_createdAt = spread (u_createdAt user) (pu_createdAt updates)\<rparr>"

definition updateUser ::
  "string \<Rightarrow> 'n PartialUser \<Rightarrow> 'n MemStorage \<Rightarrow> 'n User option \<times> 'n MemStorage" where
  "updateUser uid updates s =
    (case mapGet (users s) uid of
       None \<Rightarrow> (None, s)
     | Some user \<Rightarrow>
         (let updatedUser = spreadUser user updates
          in (Some updatedUser, s\<lparr>users := mapSet uid updatedUser (users s)\<rparr>)))"

text \<open>The object \<open>{}\<close>, and the object \<open>{ currentStreak, longestStreak }\<close>.\<close>

definition emptyPartialUser :: "'n PartialUser" where
  "emptyPartialUser =
    \<lparr>pu_id = None, pu_username = None, pu_email = None, pu_firstName = None,
     pu_lastName = None, pu_password = None, pu_fitnessGoals = None,
     pu_currentWeight = None, pu_targetWeight = None, pu_workoutFrequency = None,
     pu_currentStreak = None, pu_longestStreak = None, pu_createdAt = None\<rparr>"

definition streakUpdates :: "int \<Rightarrow> int \<Rightarrow> 'n PartialUser" where
  "streakUpdates cs ls =
    emptyPartialUser\<lparr>pu_currentStreak := Some (Some cs), pu_longestStreak := Some (Some ls)\<rparr>"

subsection \<open>Workouts\<close>

text \<open>\<open>new Date(workout.createdAt!).getTime()\<close>.\<close>

definition createdTime :: "Workout \<Rightarrow> int" where
  "createdTime workout = dateOf (w_createdAt workout)"

definition getWorkoutsByUserId :: "string \<Rightarrow> 'n MemStorage \<Rightarrow> Workout list" where
  "getWorkoutsByUserId userId s =
    sortDescending createdTime (filter (\<lambda>workout. w_userId workout = userId) (mapValues (workouts s)))"

definition getWorkout :: "string \<Rightarrow> 'n MemStorage \<Rightarrow> Workout option" where
  "getWorkout wid s = mapGet (workouts s) wid"

text \<open>
  The loop of \<open>updateUserStreak\<close>: \<open>i\<close> is the index of the workout at the head of the
  remaining list, \<open>Math.floor\<close> of the quotient is integer division.
\<close>

definition daysDiff :: "TimeZone \<Rightarrow> int \<Rightarrow> Workout \<Rightarrow> int" where
  "daysDiff z today workout = (today - setHours0 z (createdTime workout)) div msPerDay"

fun streakLoop :: "TimeZone \<Rightarrow> int \<Rightarrow> int \<Rightarrow> int \<Rightarrow> Workout list \<Rightarrow> int" where
  "streakLoop z today i cs [] = cs"
| "streakLoop z today i cs (workout # rest) =
    (if daysDiff z today workout = i then streakLoop z today (i + 1) (cs + 1) rest else cs)"

definition calcCurrentStreak :: "TimeZone \<Rightarrow> int \<Rightarrow> Workout list \<Rightarrow> int" where
  "calcCurrentStreak z now userWorkouts =
    (let today = setHours0 z now;
         sortedWorkouts = sortDescending createdTime userWorkouts
     in streakLoop z today 0 0 sortedWorkouts)"

definition updateUserStreak :: "TimeZone \<Rightarrow> string \<Rightarrow> int \<Rightarrow> 'n MemStorage \<Rightarrow> 'n MemStorage" where
  "updateUserStreak z userId now s =
    (case getUser userId s of
       None \<Rightarrow> s
     | Some user \<Rightarrow>
         (let userWorkouts = getWorkoutsByUserId userId s;
              cs = calcCurrentStreak z now userWorkouts;
              ls = max (orZero (longestStreak user)) cs
          in snd (updateUser userId (streakUpdates cs ls) s)))"

text \<open>
  \<open>createWorkout\<close> reads the clock twice: \<open>now\<close> stamps the workout, \<open>now'\<close> is the
  later reading inside \<open>updateUserStreak\<close>.
\<close>

definition createWorkout ::
  "TimeZone \<Rightarrow> string \<Rightarrow> int \<Rightarrow> int \<Rightarrow> InsertWorkout \<Rightarrow> 'n MemStorage \<Rightarrow> Workout \<times> 'n MemStorage" where
  "createWorkout z newId now now' insertWorkout s =
    (let workout = \<lparr>w_id = newId,
                     w_userId = iw_userId insertWorkout,
                     w_name = iw_name insertWorkout,
                     w_type = iw_type insertWorkout,
                     w_duration = iw_duration insertWorkout,
                     w_exercises = iw_exercises insertWorkout,
                     w_notes = iw_notes insertWorkout,
                     w_createdAt = Some now\<rparr>;
         s1 = s\<lparr>workouts := mapSet newId workout (workouts s)\<rparr>
     in (workout, updateUserStreak z (iw_userId insertWorkout) now' s1))"

definition spreadWorkout :: "Workout \<Rightarrow> PartialWorkout \<Rightarrow> Workout" where
  "spreadWorkout workout updates =
    \<lparr>w_id = spread (w_id workout) (pw_id updates),
     w_userId = spread (w_userId workout) (pw_userId updates),
     w_name = spread (w_name workout) (pw_name updates),
     w_type = spread (w_type workout) (pw_type updates),
     w_duration = spread (w_duration workout) (pw_duration updates),
     w_exercises = spread (w_exercises workout) (pw_exercises updates),
     w_notes = spread (w_notes workout) (pw_notes updates),
     w_createdAt = spread (w_createdAt workout) (pw_createdAt updates)\<rparr>"

definition updateWorkout ::
  "string \<Rightarrow> PartialWorkout \<Rightarrow> 'n MemStorage \<Rightarrow> Workout option \<times> 'n MemStorage" where
  "updateWorkout wid updates s =
    (case mapGet (workouts s) wid of
       None \<Rightarrow> (None, s)
     | Some workout \<Rightarrow>
         (let updatedWorkout = spreadWorkout workout updates
          in (Some updatedWorkout, s\<lparr>workouts := mapSet wid updatedWorkout (workouts s)\<rparr>)))"

definition deleteWorkout :: "string \<Rightarrow> 'n MemStorage \<Rightarrow> bool \<times> 'n MemStorage" where
  "deleteWorkout wid s = (mapHas (workouts s) wid, s\<lparr>workouts := mapDelete wid (workouts s)\<rparr>)"

subsection \<open>Health metrics\<close>

definition metricsTime :: "'n HealthMetrics \<Rightarrow> int" where
  "metricsTime metrics = dateOf (hm_createdAt metrics)"

definition getHealthMetricsByUserId :: "string \<Rightarrow> 'n MemStorage \<Rightarrow> 'n HealthMetrics list" where
  "getHealthMetricsByUserId userId s =
    sortDescending metricsTime (filter (\<lambda>metrics. hm_userId metrics = userId) (mapValues (healthMetrics s)))"

definition getLatestHealthMetrics :: "string \<Rightarrow> 'n MemStorage \<Rightarrow> 'n HealthMetrics option" where
  "getLatestHealthMetrics userId s =
    (case getHealthMetricsByUserId userId s of [] \<Rightarrow> None | m # _ \<Rightarrow> Some m)"

definition createHealthMetrics ::
  "string \<Rightarrow> int \<Rightarrow> 'n InsertHealthMetrics \<Rightarrow> 'n MemStorage \<Rightarrow> 'n HealthMetrics \<times> 'n MemStorage" where
  "createHealthMetrics newId now insertMetrics s =
    (let metrics = \<lparr>hm_id = newId,
                     hm_userId = ihm_userId insertMetrics,
                     hm_weight = ihm_weight insertMetrics,
                     hm_sleepHours = ihm_sleepHours insertMetrics,
                     hm_sleepQuality = ihm_sleepQuality insertMetrics,
                     hm_waterIntake = ihm_waterIntake insertMetrics,
                     hm_notes = ihm_notes insertMetrics,
                     hm_createdAt = Some now\<rparr>
     in (metrics, s\<lparr>healthMetrics := mapSet newId metrics (healthMetrics s)\<rparr>))"

subsection \<open>Scheduled workouts\<close>

definition getScheduledWorkoutsByUserId :: "string \<Rightarrow> 'n MemStorage \<Rightarrow> ScheduledWorkout list" where
  "getScheduledWorkoutsByUserId userId s =
    sortAscending sw_scheduledDate
      (filter (\<lambda>workout. sw_userId workout = userId) (mapValues (scheduledWorkouts s)))"

definition getScheduledWorkout :: "string \<Rightarrow> 'n MemStorage \<Rightarrow> ScheduledWorkout option" where
  "getScheduledWorkout wid s = mapGet (scheduledWorkouts s) wid"

definition createScheduledWorkout ::
  "string \<Rightarrow> int \<Rightarrow> InsertScheduledWorkout \<Rightarrow> 'n MemStorage \<Rightarrow> ScheduledWorkout \<times> 'n MemStorage" where
  "createScheduledWorkout newId now insertWorkout s =
    (let workout = \<lparr>sw_id = newId,
                     sw_userId = isw_userId insertWorkout,
                     sw_name = isw_name insertWorkout,
                     sw_type = isw_type insertWorkout,
                     sw_scheduledDate = isw_scheduledDate insertWorkout,
                     sw_duration = isw_duration insertWorkout,
                     sw_completed = Some 0,
                     sw_createdAt = Some now\<rparr>
     in (workout, s\<lparr>scheduledWorkouts := mapSet newId workout (scheduledWorkouts s)\<rparr>))"

definition spreadScheduledWorkout :: "ScheduledWorkout \<Rightarrow> PartialScheduledWorkout \<Rightarrow> ScheduledWorkout" where
  "spreadScheduledWorkout workout updates =
    \<lparr>sw_id = spread (sw_id workout) (psw_id updates),
     sw_userId = spread (sw_userId workout) (psw_userId updates),
     sw_name = spread (sw_name workout) (psw_name updates),
     sw_type = spread (sw_type workout) (psw_type updates),
     sw_scheduledDate = spread (sw_scheduledDate workout) (psw_scheduledDate updates),
     sw_duration = spread (sw_duration workout) (psw_duration updates),
     sw_completed = spread (sw_completed workout) (psw_completed updates),
     sw_createdAt = spread (sw_createdAt workout) (psw_createdAt updates)\<rparr>"

definition updateScheduledWorkout ::
  "string \<Rightarrow> PartialScheduledWorkout \<Rightarrow> 'n MemStorage \<Rightarrow> ScheduledWorkout option \<times> 'n MemStorage" where
  "updateScheduledWorkout wid updates s =
    (case mapGet (scheduledWorkouts s) wid of
       None \<Rightarrow> (None, s)
     | Some workout \<Rightarrow>
         (let updatedWorkout = spreadScheduledWorkout workout updates
          in (Some updatedWorkout,
              s\<lparr>scheduledWorkouts := mapSet wid updatedWorkout (scheduledWorkouts s)\<rparr>)))"

definition deleteScheduledWorkout :: "string \<Rightarrow> 'n MemStorage \<Rightarrow> bool \<times> 'n MemStorage" where
  "deleteScheduledWorkout wid s =
    (mapHas (scheduledWorkouts s) wid, s\<lparr>scheduledWorkouts := mapDelete wid (scheduledWorkouts s)\<rparr>)"

section \<open>Request handlers (server/routes.ts)\<close>

text \<open>
  A handler runs after \<open>requireAuth\<close>; \<open>reqUserId\<close> is \<open>req.user.id\<close>. The request body
  is taken after schema validation. A handler returns its response and the store it leaves.
\<close>

definition postWorkout ::
  "TimeZone \<Rightarrow> string \<Rightarrow> InsertWorkout \<Rightarrow> string \<Rightarrow> int \<Rightarrow> int \<Rightarrow> 'n MemStorage
     \<Rightarrow> (nat \<times> Workout) \<times> 'n MemStorage" where
  "postWorkout z reqUserId body newId now now' s =
    (let workoutData = body\<lparr>iw_userId := reqUserId\<rparr>;
         (workout, s') = createWorkout z newId now now' workoutData s
     in ((201, workout), s'))"

definition deleteWorkoutRoute :: "string \<Rightarrow> string \<Rightarrow> 'n MemStorage \<Rightarrow> nat \<times> 'n MemStorage" where
  "deleteWorkoutRoute reqUserId wid s =
    (case getWorkout wid s of
       None \<Rightarrow> (404, s)
     | Some workout \<Rightarrow>
         if w_userId workout \<noteq> reqUserId then (404, s)
         else (let (deleted, s') = deleteWorkout wid s
               in if deleted then (204, s') else (500, s')))"

definition patchUserProfile ::
  "string \<Rightarrow> 'n PartialUser \<Rightarrow> 'n MemStorage \<Rightarrow> 'n User option \<times> 'n MemStorage" where
  "patchUserProfile reqUserId body s = updateUser reqUserId body s"

record 'n DashboardStats =
  st_currentStreak :: int
  st_longestStreak :: int
  st_weeklyWorkouts :: nat
  st_totalWorkouts :: nat
  st_weightProgress :: 'n
  st_currentWeight :: "'n option"
  st_targetWeight :: "'n option"

text \<open>
  \<open>GET /api/dashboard/stats\<close>. \<open>user?.f\<close> is \<open>undefined\<close> when there is no user; a field
  that is \<open>null\<close> or \<open>undefined\<close> in the response is \<open>None\<close>. Nothing in the \<open>try\<close> block
  throws, so the handler always answers with the stats. Inside the branch on
  \<open>user?.currentWeight\<close> that weight is a number, \<open>userWeight\<close>.
\<close>

definition userField :: "('n User \<Rightarrow> 'a option) \<Rightarrow> 'n User option \<Rightarrow> 'a option" where
  "userField f user = (case user of None \<Rightarrow> None | Some u \<Rightarrow> f u)"

definition metricsWeight :: "'n HealthMetrics option \<Rightarrow> 'n option" where
  "metricsWeight latestMetrics = (case latestMetrics of None \<Rightarrow> None | Some m \<Rightarrow> hm_weight m)"

definition getDashboardStats ::
  "'n NumberOps \<Rightarrow> TimeZone \<Rightarrow> string \<Rightarrow> int \<Rightarrow> 'n MemStorage \<Rightarrow> 'n DashboardStats \<times> 'n MemStorage" where
  "getDashboardStats ops z reqUserId now s =
    (let user = getUser reqUserId s;
         userWorkouts = getWorkoutsByUserId reqUserId s;
         latestMetrics = getLatestHealthMetrics reqUserId s;
         oneWeekAgo = setDateMinus7 z now;
         weeklyWorkouts = length (filter (\<lambda>w. createdTime w \<ge> oneWeekAgo) userWorkouts);
         metrics = getHealthMetricsByUserId reqUserId s;
         weightProgress =
           (if length metrics \<ge> 2 \<and> truthy ops (userField currentWeight user)
            then (case userField currentWeight user of
                    None \<Rightarrow> nLiteral ops 0
                  | Some userWeight \<Rightarrow>
                      (let oldestWeight = orNumber ops (hm_weight (metrics ! (length metrics - 1))) userWeight;
                           latestWeight = orNumber ops (metricsWeight latestMetrics) userWeight
                       in nSub ops latestWeight oldestWeight))
            else nLiteral ops 0);
         stats = \<lparr>st_currentStreak = orZero (userField currentStreak user),
                  st_longestStreak = orZero (userField longestStreak user),
                  st_weeklyWorkouts = weeklyWorkouts,
                  st_totalWorkouts = length userWorkouts,
                  st_weightProgress = roundTenth ops weightProgress,
                  st_currentWeight = orElse ops (metricsWeight latestMetrics) (userField currentWeight user),
                  st_targetWeight = userField targetWeight user\<rparr>
     in (stats, s))"

section \<open>Vocabulary of the properties\<close>

text \<open>
  The calendar day of a timestamp in the server's zone, as a day number, and the workouts
  of one day.
\<close>

definition calendarDay :: "TimeZone \<Rightarrow> int \<Rightarrow> int" where
  "calendarDay z t = localTime z t div msPerDay"

definition workoutsOnDay :: "TimeZone \<Rightarrow> int \<Rightarrow> Workout list \<Rightarrow> Workout list" where
  "workoutsOnDay z d ws = filter (\<lambda>w. calendarDay z (createdTime w) = d) ws"

text \<open>The streak fields of a stored user, \<open>null\<close> read as 0 the way the server reads it.\<close>

definition storedCurrentStreak :: "string \<Rightarrow> 'n MemStorage \<Rightarrow> int" where
  "storedCurrentStreak uid s = orZero (userField currentStreak (getUser uid s))"

definition storedLongestStreak :: "string \<Rightarrow> 'n MemStorage \<Rightarrow> int" where
  "storedLongestStreak uid s = orZero (userField longestStreak (getUser uid s))"

text \<open>A sequence of workout insertions, each with its UUID and its two clock readings.\<close>

fun createWorkouts ::
  "TimeZone \<Rightarrow> (string \<times> int \<times> int \<times> InsertWorkout) list \<Rightarrow> 'n MemStorage \<Rightarrow> 'n MemStorage" where
  "createWorkouts z [] s = s"
| "createWorkouts z ((newId, now, now', insertWorkout) # reqs) s =
    createWorkouts z reqs (snd (createWorkout z newId now now' insertWorkout s))"

text \<open>
  The current streak in the words of the specification: the distinct active days of the
  workouts, and the number of consecutive days \<open>today\<close>, \<open>today - 1\<close>, ... that are active,
  counted from today until the first day without a workout.
\<close>

definition activeDays :: "TimeZone \<Rightarrow> Workout list \<Rightarrow> int list" where
  "activeDays z ws = remdups (map (\<lambda>w. calendarDay z (createdTime w)) ws)"

definition specCurrentStreak :: "TimeZone \<Rightarrow> int \<Rightarrow> Workout list \<Rightarrow> int" where
  "specCurrentStreak z now ws =
    int (length (takeWhile (\<lambda>k. calendarDay z now - int k \<in> set (activeDays z ws)) [0 ..< Suc (length ws)]))"

text \<open>
  The weight progress in the words of the specification: 0 with fewer than two records or
  without a baseline weight; otherwise the weight of the most recent record minus the weight
  of the least recent one, each replaced by the user's currentWeight when absent, rounded to
  one decimal place.
\<close>

definition weightOrBaseline :: "'n option \<Rightarrow> 'n \<Rightarrow> 'n" where
  "weightOrBaseline weight baseline = (case weight of None \<Rightarrow> baseline | Some v \<Rightarrow> v)"

definition specWeightProgress :: "'n NumberOps \<Rightarrow> 'n User option \<Rightarrow> 'n HealthMetrics list \<Rightarrow> 'n" where
  "specWeightProgress ops user metrics =
    (case userField currentWeight user of
       None \<Rightarrow> nLiteral ops 0
     | Some baseline \<Rightarrow>
         if length metrics < 2 then nLiteral ops 0
         else roundTenth ops (nSub ops (weightOrBaseline (hm_weight (hd metrics)) baseline)
                                       (weightOrBaseline (hm_weight (last metrics)) baseline)))"

text \<open>The order between the two streak fields of a user record.\<close>

definition streakOrdered :: "'n User \<Rightarrow> bool" where
  "streakOrdered u = (orZero (currentStreak u) \<le> orZero (longestStreak u))"

subsection \<open>Sample data\<close>

text \<open>The zone UTC.\<close>

definition utcZone :: TimeZone where
  "utcZone = \<lparr>tzaOfUtc = (\<lambda>t. 0), tzaOfLocal = (\<lambda>t. 0)\<rparr>"

text \<open>
  The zone America/New_York for the instants of the year 2026: UTC-5, and UTC-4 from
  2026-03-08 07:00 UTC (02:00 local, which becomes 03:00) to 2026-11-01 06:00 UTC (02:00
  local, which becomes 01:00). A local time that the spring change skips, or that the
  autumn change repeats, takes the offset in force before the change.
\<close>

definition newYork2026 :: TimeZone where
  "newYork2026 =
    \<lparr>tzaOfUtc = (\<lambda>t. if 1772953200000 \<le> t \<and> t < 1793512800000 then - 14400000 else - 18000000),
     tzaOfLocal = (\<lambda>t. if 1772938800000 \<le> t \<and> t < 1793498400000 then - 14400000 else - 18000000)\<rparr>"

text \<open>
  Arithmetic on real numbers. IEEE arithmetic returns the exact result of an operation
  whenever that result is a double, so on the small integers of the samples below the
  runtime computes what these operations compute.
\<close>

definition exactOps :: "real NumberOps" where
  "exactOps =
    \<lparr>nFalsy = (\<lambda>x. x = 0), nSub = (\<lambda>x y. x - y), nMul = (\<lambda>x y. x * y), nDiv = (\<lambda>x y. x / y),
     nRound = (\<lambda>x. real_of_int \<lfloor>x + 1 / 2\<rfloor>), nLiteral = real_of_int\<rparr>"

definition atDay :: "int \<Rightarrow> int \<Rightarrow> int" where
  "atDay d ms = d * msPerDay + ms"

definition sampleInsertUser :: "string \<Rightarrow> real option \<Rightarrow> real InsertUser" where
  "sampleInsertUser name weight =
    \<lparr>iu_username = name, iu_email = name @ ''@example.org'', iu_firstName = name,
     iu_lastName = ''Lee'', iu_password = ''x'', iu_fitnessGoals = None,
     iu_currentWeight = weight, iu_targetWeight = None, iu_workoutFrequency = None\<rparr>"

definition cardio :: "string \<Rightarrow> InsertWorkout" where
  "cardio uid =
    \<lparr>iw_userId = uid, iw_name = ''Run'', iw_type = ''Cardio'', iw_duration = 30,
     iw_exercises = ''[]'', iw_notes = None\<rparr>"

definition weighIn :: "string \<Rightarrow> real option \<Rightarrow> real InsertHealthMetrics" where
  "weighIn uid weight =
    \<lparr>ihm_userId = uid, ihm_weight = weight, ihm_sleepHours = None, ihm_sleepQuality = None,
     ihm_waterIntake = None, ihm_notes = None\<rparr>"

definition planned :: "string \<Rightarrow> int \<Rightarrow> InsertScheduledWorkout" where
  "planned uid t =
    \<lparr>isw_userId = uid, isw_name = ''Run'', isw_type = ''Cardio'', isw_scheduledDate = t,
     isw_duration = 30\<rparr>"

text \<open>The workout record that \<open>createWorkout\<close> builds from \<open>cardio ''u1''\<close> at time \<open>t\<close>.\<close>

definition sampleWorkout :: "string \<Rightarrow> int \<Rightarrow> Workout" where
  "sampleWorkout wid t =
    \<lparr>w_id = wid, w_userId = ''u1'', w_name = ''Run'', w_type = ''Cardio'', w_duration = 30,
     w_exercises = ''[]'', w_notes = None, w_createdAt = Some t\<rparr>"

text \<open>A store with one user \<open>u1\<close>, registered on day 10, and one with a second user \<open>u2\<close>.\<close>

definition oneUserStore :: "real option \<Rightarrow> real MemStorage" where
  "oneUserStore weight =
    snd (createUser ''u1'' (atDay 10 0) (sampleInsertUser ''ana'' weight) newMemStorage)"

definition twoUserStore :: "real MemStorage" where
  "twoUserStore = snd (createUser ''u2'' (atDay 10 5) (sampleInsertUser ''bo'' None) (oneUserStore None))"

text \<open>
  The one-user store after two health-metrics records: an older one of day 10 with weight
  \<open>older\<close> and a later one of day 11 with weight \<open>later\<close>.
\<close>

definition weighedStore :: "real option \<Rightarrow> real option \<Rightarrow> real option \<Rightarrow> real MemStorage" where
  "weighedStore baseline older later =
    snd (createHealthMetrics ''m2'' (atDay 11 0) (weighIn ''u1'' later)
      (snd (createHealthMetrics ''m1'' (atDay 10 0) (weighIn ''u1'' older) (oneUserStore baseline))))"

text \<open>
  The one-user store after two workouts stamped with the same time on day 11 (\<open>w1\<close>, then
  \<open>w2\<close>), in its three stages, and after a third workout stamped later.
\<close>

definition tieStoreA :: "real MemStorage" where
  "tieStoreA = snd (createWorkout utcZone ''w1'' (atDay 11 7) (atDay 11 8) (cardio ''u1'') (oneUserStore None))"

definition tieStoreB :: "real MemStorage" where
  "tieStoreB = snd (createWorkout utcZone ''w2'' (atDay 11 7) (atDay 11 9) (cardio ''u1'') tieStoreA)"

definition tieStoreC :: "real MemStorage" where
  "tieStoreC = snd (createWorkout utcZone ''w3'' (atDay 11 20) (atDay 11 21) (cardio ''u1'') tieStoreB)"

text \<open>
  A store after each kind of mutation: a scheduled workout is created, marked completed
  and its date moved, a workout is inserted and renamed, and the user's weight is set.
\<close>

definition emptyPartialWorkout :: PartialWorkout where
  "emptyPartialWorkout =
    \<lparr>pw_id = None, pw_userId = None, pw_name = None, pw_type = None, pw_duration = None,
     pw_exercises = None, pw_notes = None, pw_createdAt = None\<rparr>"

definition emptyPartialScheduledWorkout :: PartialScheduledWorkout where
  "emptyPartialScheduledWorkout =
    \<lparr>psw_id = None, psw_userId = None, psw_name = None, psw_type = None, psw_scheduledDate = None,
     psw_duration = None, psw_completed = None, psw_createdAt = None\<rparr>"

definition busyStore :: "real MemStorage" where
  "busyStore =
    snd (updateUser ''u1'' (emptyPartialUser\<lparr>pu_currentWeight := Some (Some 180)\<rparr>)
      (snd (updateWorkout ''w1'' (emptyPartialWorkout\<lparr>pw_name := Some ''Jog''\<rparr>)
        (snd (createWorkout utcZone ''w1'' (atDay 11 0) (atDay 11 1) (cardio ''u1'')
          (snd (updateScheduledWorkout ''p1''
                 (emptyPartialScheduledWorkout\<lparr>psw_completed := Some (Some 1),
                                                 psw_scheduledDate := Some (atDay 13 0)\<rparr>)
            (snd (createScheduledWorkout ''p1'' (atDay 10 9) (planned ''u1'' (atDay 12 0))
                   (oneUserStore None))))))))))"

text \<open>
  Times of the sample for New York: 13:00 local on 2026-03-08, the day of the spring
  change, and 13:00 and 14:00 local on 2026-03-09.
\<close>

definition march8 :: int where
  "march8 = 1772989200000"

definition march9 :: int where
  "march9 = 1773075600000"

definition march9later :: int where
  "march9later = 1773079200000"

subsection \<open>Reachable stores\<close>

text \<open>
  A user update leaves the streak fields alone when the supplied object has neither
  \<open>currentStreak\<close> nor \<open>longestStreak\<close>.
\<close>

definition keepsStreakFields :: "'n PartialUser \<Rightarrow> bool" where
  "keepsStreakFields updates = (pu_currentStreak updates = None \<and> pu_longestStreak updates = None)"

text \<open>
  The stores that arise from the empty store by the mutating methods of the store, on a
  server in zone \<open>z\<close>: all nine of them, with any arguments, user updates being restricted to
  those that leave the streak fields alone.
\<close>

inductive reachable :: "TimeZone \<Rightarrow> 'n MemStorage \<Rightarrow> bool" for z :: TimeZone where
  reach_new: "reachable z newMemStorage"
| reach_createUser: "reachable z s \<Longrightarrow> reachable z (snd (createUser newId now insertUser s))"
| reach_updateUser:
    "reachable z s \<Longrightarrow> keepsStreakFields updates \<Longrightarrow> reachable z (snd (updateUser uid updates s))"
| reach_createWorkout:
    "reachable z s \<Longrightarrow> reachable z (snd (createWorkout z newId now now' insertWorkout s))"
| reach_updateWorkout: "reachable z s \<Longrightarrow> reachable z (snd (updateWorkout wid workoutUpdates s))"
| reach_deleteWorkout: "reachable z s \<Longrightarrow> reachable z (snd (deleteWorkout wid s))"
| reach_createHealthMetrics:
    "reachable z s \<Longrightarrow> reachable z (snd (createHealthMetrics newId now insertMetrics s))"
| reach_createScheduledWorkout:
    "reachable z s \<Longrightarrow> reachable z (snd (createScheduledWorkout newId now insertScheduled s))"
| reach_updateScheduledWorkout:
    "reachable z s \<Longrightarrow> reachable z (snd (updateScheduledWorkout wid scheduledUpdates s))"
| reach_deleteScheduledWorkout: "reachable z s \<Longrightarrow> reachable z (snd (deleteScheduledWorkout wid s))"

section \<open>Basic facts about the store\<close>

lemma mapGet_mapSet: "mapGet (mapSet k v m) k' = (if k' = k then Some v else mapGet m k')"
  by (induction m) auto

lemma mapGet_in_values: "mapGet m k = Some v \<Longrightarrow> v \<in> set (mapValues m)"
  by (induction m) (auto simp: mapValues_def split: if_splits)

lemma values_mapSet: "set (mapValues (mapSet k v m)) \<subseteq> insert v (set (mapValues m))"
proof (induction m)
  case Nil
  show ?case by (simp add: mapValues_def)
next
  case (Cons p m)
  obtain k' v' where p: "p = (k', v')" by (cases p)
  show ?case using Cons.IH unfolding p mapValues_def by (cases "k' = k") auto
qed

lemma values_mapSet_fresh: "mapGet m k = None \<Longrightarrow> mapValues (mapSet k v m) = mapValues m @ [v]"
  by (induction m) (auto simp: mapValues_def split: if_splits)

lemma getUser_updateUserStreak_other:
  "uid \<noteq> userId \<Longrightarrow> getUser uid (updateUserStreak z userId now s) = getUser uid s"
  by (simp add: updateUserStreak_def updateUser_def getUser_def mapGet_mapSet Let_def split: option.splits)

lemma workouts_updateUserStreak: "workouts (updateUserStreak z userId now s) = workouts s"
  by (simp add: updateUserStreak_def updateUser_def getUser_def Let_def split: option.splits)

lemma healthMetrics_updateUserStreak: "healthMetrics (updateUserStreak z userId now s) = healthMetrics s"
  by (simp add: updateUserStreak_def updateUser_def getUser_def Let_def split: option.splits)

lemma scheduledWorkouts_updateUserStreak:
  "scheduledWorkouts (updateUserStreak z userId now s) = scheduledWorkouts s"
  by (simp add: updateUserStreak_def updateUser_def getUser_def Let_def split: option.splits)

lemma getUser_updateUserStreak:
  "getUser userId s = Some user \<Longrightarrow>
   getUser userId (updateUserStreak z userId now s) =
     Some (user\<lparr>currentStreak := Some (calcCurrentStreak z now (getWorkoutsByUserId userId s)),
               longestStreak := Some (max (orZero (longestStreak user))
                                          (calcCurrentStreak z now (getWorkoutsByUserId userId s)))\<rparr>)"
  by (simp add: updateUserStreak_def updateUser_def getUser_def mapGet_mapSet Let_def
      spreadUser_def streakUpdates_def emptyPartialUser_def spread_def)

lemma updateUserStreak_no_user:
  "getUser userId s = None \<Longrightarrow> updateUserStreak z userId now s = s"
  by (simp add: updateUserStreak_def)

lemma getWorkoutsByUserId_cong:
  "workouts s' = workouts s \<Longrightarrow> getWorkoutsByUserId uid s' = getWorkoutsByUserId uid s"
  by (simp add: getWorkoutsByUserId_def)

lemma createWorkout_snd:
  "snd (createWorkout z newId now now' iw s) =
     updateUserStreak z (iw_userId iw) now'
       (s\<lparr>workouts := mapSet newId (fst (createWorkout z newId now now' iw s)) (workouts s)\<rparr>)"
  by (simp add: createWorkout_def Let_def)

lemma fst_createWorkout:
  "fst (createWorkout z newId now now' iw s) =
     \<lparr>w_id = newId, w_userId = iw_userId iw, w_name = iw_name iw, w_type = iw_type iw,
      w_duration = iw_duration iw, w_exercises = iw_exercises iw, w_notes = iw_notes iw,
      w_createdAt = Some now\<rparr>"
  by (simp add: createWorkout_def Let_def)

lemma getUser_workouts_update: "getUser uid (s\<lparr>workouts := ws\<rparr>) = getUser uid s"
  by (simp add: getUser_def)

lemma workouts_createWorkout:
  "workouts (snd (createWorkout z newId now now' iw s))
     = mapSet newId (fst (createWorkout z newId now now' iw s)) (workouts s)"
  by (simp add: createWorkout_snd workouts_updateUserStreak)

lemma getUser_createWorkout_other:
  "uid \<noteq> iw_userId iw \<Longrightarrow> getUser uid (snd (createWorkout z newId now now' iw s)) = getUser uid s"
  by (simp add: createWorkout_snd getUser_updateUserStreak_other getUser_workouts_update)

lemma users_createWorkout_no_owner:
  assumes "getUser (iw_userId iw) s = None"
  shows "users (snd (createWorkout z newId now now' iw s)) = users s"
proof -
  let ?s1 = "s\<lparr>workouts := mapSet newId (fst (createWorkout z newId now now' iw s)) (workouts s)\<rparr>"
  have "getUser (iw_userId iw) ?s1 = None" using assms by (simp add: getUser_workouts_update)
  then have "updateUserStreak z (iw_userId iw) now' ?s1 = ?s1" by (rule updateUserStreak_no_user)
  then show ?thesis by (simp add: createWorkout_snd)
qed

lemma getUser_createWorkout_owner:
  assumes "getUser (iw_userId iw) s = Some user"
  shows "getUser (iw_userId iw) (snd (createWorkout z newId now now' iw s)) =
     Some (user\<lparr>currentStreak :=
                   Some (calcCurrentStreak z now'
                          (getWorkoutsByUserId (iw_userId iw) (snd (createWorkout z newId now now' iw s)))),
                longestStreak :=
                   Some (max (orZero (longestStreak user))
                          (calcCurrentStreak z now'
                            (getWorkoutsByUserId (iw_userId iw) (snd (createWorkout z newId now now' iw s)))))\<rparr>)"
proof -
  let ?s1 = "s\<lparr>workouts := mapSet newId (fst (createWorkout z newId now now' iw s)) (workouts s)\<rparr>"
  let ?s' = "snd (createWorkout z newId now now' iw s)"
  have lst: "getWorkoutsByUserId (iw_userId iw) ?s' = getWorkoutsByUserId (iw_userId iw) ?s1"
    by (rule getWorkoutsByUserId_cong) (simp add: workouts_createWorkout)
  have "getUser (iw_userId iw) ?s1 = Some user" using assms by (simp add: getUser_workouts_update)
  from getUser_updateUserStreak[OF this, of z now']
  show ?thesis unfolding lst unfolding createWorkout_snd .
qed

lemma getUser_createWorkout_stays:
  assumes "getUser uid s \<noteq> None"
  shows "getUser uid (snd (createWorkout z newId now now' iw s)) \<noteq> None"
proof (cases "uid = iw_userId iw")
  case False
  then show ?thesis using assms by (simp add: getUser_createWorkout_other)
next
  case True
  then obtain user where "getUser (iw_userId iw) s = Some user" using assms by auto
  from getUser_createWorkout_owner[OF this, of z newId now now']
  show ?thesis using True by simp
qed

lemma getUser_createWorkouts_stays:
  "getUser uid s \<noteq> None \<Longrightarrow> getUser uid (createWorkouts z reqs s) \<noteq> None"
proof (induction reqs arbitrary: s)
  case Nil
  then show ?case by simp
next
  case (Cons r reqs)
  obtain newId now now' iw where r: "r = (newId, now, now', iw)" by (cases r) auto
  have "getUser uid (snd (createWorkout z newId now now' iw s)) \<noteq> None"
    using Cons.prems by (rule getUser_createWorkout_stays)
  then show ?case unfolding r by (simp add: Cons.IH)
qed

lemma storedLongestStreak_createWorkout:
  "storedLongestStreak uid s \<le> storedLongestStreak uid (snd (createWorkout z newId now now' iw s))"
proof (cases "uid = iw_userId iw")
  case False
  then show ?thesis by (simp add: storedLongestStreak_def getUser_createWorkout_other)
next
  case True
  show ?thesis
  proof (cases "getUser (iw_userId iw) s")
    case None
    from users_createWorkout_no_owner[OF this, of z newId now now']
    show ?thesis by (simp add: storedLongestStreak_def getUser_def)
  next
    case (Some user)
    from getUser_createWorkout_owner[OF this, of z newId now now']
    show ?thesis using Some True by (simp add: storedLongestStreak_def userField_def orZero_def)
  qed
qed

lemma storedLongestStreak_createWorkouts:
  "storedLongestStreak uid s \<le> storedLongestStreak uid (createWorkouts z reqs s)"
proof (induction reqs arbitrary: s)
  case Nil
  show ?case by simp
next
  case (Cons r reqs)
  obtain newId now now' iw where r: "r = (newId, now, now', iw)" by (cases r) auto
  have "storedLongestStreak uid s \<le> storedLongestStreak uid (snd (createWorkout z newId now now' iw s))"
    by (rule storedLongestStreak_createWorkout)
  also have "\<dots> \<le> storedLongestStreak uid (createWorkouts z reqs (snd (createWorkout z newId now now' iw s)))"
    by (rule Cons.IH)
  finally show ?case by (simp add: r)
qed

text \<open>Unfolding rules for evaluating the model on sample data.\<close>

lemmas store_defs = newMemStorage_def createUser_def updateUser_def getUser_def createWorkout_def
  updateUserStreak_def getWorkoutsByUserId_def calcCurrentStreak_def daysDiff_def setHours0_def
  localTime_def utcOfLocal_def createdTime_def metricsTime_def dateOf_def
  msPerDay_def sortDescending_def sortAscending_def mapValues_def spreadUser_def spread_def
  streakUpdates_def emptyPartialUser_def orZero_def userField_def deleteWorkout_def mapHas_def
  createHealthMetrics_def getHealthMetricsByUserId_def getLatestHealthMetrics_def
  createScheduledWorkout_def getScheduledWorkoutsByUserId_def getWorkout_def

lemmas sample_defs = utcZone_def atDay_def sampleInsertUser_def cardio_def weighIn_def planned_def
  oneUserStore_def twoUserStore_def sampleWorkout_def storedCurrentStreak_def storedLongestStreak_def

section \<open>Deleting a workout\<close>

text \<open>
  C9. Deleting a workout does not recompute the streak: after \<open>deleteWorkout\<close>, and after
  the whole \<open>DELETE /api/workouts/:id\<close> handler, the stored users are exactly the users
  before, so every user's currentStreak and longestStreak are what they were, whichever
  workout was deleted.
\<close>

theorem deleteWorkout_keeps_streaks:
  "users (snd (deleteWorkout wid s)) = users s \<and>
   users (snd (deleteWorkoutRoute reqUserId wid s)) = users s \<and>
   storedCurrentStreak uid (snd (deleteWorkoutRoute reqUserId wid s)) = storedCurrentStreak uid s \<and>
   storedLongestStreak uid (snd (deleteWorkoutRoute reqUserId wid s)) = storedLongestStreak uid s"
  by (simp add: deleteWorkout_def deleteWorkoutRoute_def storedCurrentStreak_def
      storedLongestStreak_def getUser_def split: option.splits)

section \<open>Inserting a workout\<close>

text \<open>
  C10. \<open>createWorkout\<close> for a userId with no stored user: the workout is stored under its
  new id and returned, with the userId and creation time given, it appears in that userId's
  listing, and the stored users are unchanged. The model of \<open>createWorkout\<close> has no error
  result, as the method has no throw on this path.
\<close>

theorem createWorkout_unknown_user:
  assumes "getUser (iw_userId insertWorkout) s = None"
  shows "users (snd (createWorkout z newId now now' insertWorkout s)) = users s \<and>
         getWorkout newId (snd (createWorkout z newId now now' insertWorkout s))
           = Some (fst (createWorkout z newId now now' insertWorkout s)) \<and>
         w_id (fst (createWorkout z newId now now' insertWorkout s)) = newId \<and>
         w_userId (fst (createWorkout z newId now now' insertWorkout s)) = iw_userId insertWorkout \<and>
         w_createdAt (fst (createWorkout z newId now now' insertWorkout s)) = Some now \<and>
         fst (createWorkout z newId now now' insertWorkout s)
           \<in> set (getWorkoutsByUserId (iw_userId insertWorkout)
                    (snd (createWorkout z newId now now' insertWorkout s)))"
proof -
  let ?w = "fst (createWorkout z newId now now' insertWorkout s)"
  let ?s1 = "s\<lparr>workouts := mapSet newId ?w (workouts s)\<rparr>"
  have nouser: "getUser (iw_userId insertWorkout) ?s1 = None"
    using assms by (simp add: getUser_def)
  have s': "snd (createWorkout z newId now now' insertWorkout s) = ?s1"
    using updateUserStreak_no_user[OF nouser] by (simp add: createWorkout_def Let_def)
  have got: "mapGet (mapSet newId ?w (workouts s)) newId = Some ?w"
    by (simp add: mapGet_mapSet)
  have mem: "?w \<in> set (mapValues (mapSet newId ?w (workouts s)))"
    using mapGet_in_values[OF got] .
  show ?thesis
    using mem by (simp add: s' getWorkout_def mapGet_mapSet getWorkoutsByUserId_def sortDescending_def)
      (simp add: createWorkout_def Let_def)
qed

theorem createWorkout_unknown_user_witness:
  "getUser (iw_userId (cardio ''ghost'')) (newMemStorage :: real MemStorage) = None \<and>
   users (snd (createWorkout utcZone ''w1'' 5 6 (cardio ''ghost'') (newMemStorage :: real MemStorage)))
     = users (newMemStorage :: real MemStorage) \<and>
   getWorkout ''w1'' (snd (createWorkout utcZone ''w1'' 5 6 (cardio ''ghost'') (newMemStorage :: real MemStorage)))
     = Some (fst (createWorkout utcZone ''w1'' 5 6 (cardio ''ghost'') (newMemStorage :: real MemStorage)))"
proof -
  have h: "getUser (iw_userId (cardio ''ghost'')) (newMemStorage :: real MemStorage) = None"
    by (simp add: getUser_def newMemStorage_def)
  show ?thesis
    using h createWorkout_unknown_user[OF h, of utcZone "''w1''" 5 6] by simp
qed

text \<open>
  C6 as stated fails: \<open>createWorkout\<close> calls \<open>updateUserStreak\<close> itself. In a store with one
  user and no workout, inserting a workout for that user raises the stored currentStreak
  from 0 to 1, so the stored users are not what they were.
\<close>

theorem createWorkout_changes_user_counterexample:
  "storedCurrentStreak ''u1'' (oneUserStore None) = 0 \<and>
   storedCurrentStreak ''u1''
     (snd (createWorkout utcZone ''w1'' (atDay 11 0) (atDay 11 1) (cardio ''u1'') (oneUserStore None))) = 1 \<and>
   users (snd (createWorkout utcZone ''w1'' (atDay 11 0) (atDay 11 1) (cardio ''u1'') (oneUserStore None)))
     \<noteq> users (oneUserStore None)"
  by (simp add: store_defs sample_defs Let_def)

text \<open>
  C6, amended. \<open>createWorkout\<close> stores the workout and recomputes the streak of the owning
  user within the same call. Health metrics and scheduled workouts are unchanged, every
  user other than the owner is unchanged, and the owner, when stored, differs from before
  only in currentStreak and longestStreak, which hold the values recomputed from the
  listing that includes the new workout. The handler of \<open>POST /api/workouts\<close> does nothing
  to the store beyond this one call: it answers 201 with the workout that \<open>createWorkout\<close>
  returns and leaves the store that \<open>createWorkout\<close> leaves.
\<close>

theorem createWorkout_effect:
  fixes z newId now now' insertWorkout s reqUserId body
  defines "w \<equiv> fst (createWorkout z newId now now' insertWorkout s)"
    and "s' \<equiv> snd (createWorkout z newId now now' insertWorkout s)"
  shows "workouts s' = mapSet newId w (workouts s) \<and>
         healthMetrics s' = healthMetrics s \<and>
         scheduledWorkouts s' = scheduledWorkouts s \<and>
         (\<forall>uid. uid \<noteq> iw_userId insertWorkout \<longrightarrow> getUser uid s' = getUser uid s) \<and>
         (\<forall>user. getUser (iw_userId insertWorkout) s = Some user \<longrightarrow>
            getUser (iw_userId insertWorkout) s' =
              Some (user\<lparr>currentStreak :=
                            Some (calcCurrentStreak z now' (getWorkoutsByUserId (iw_userId insertWorkout) s')),
                         longestStreak :=
                            Some (max (orZero (longestStreak user))
                                      (calcCurrentStreak z now' (getWorkoutsByUserId (iw_userId insertWorkout) s')))\<rparr>)) \<and>
         postWorkout z reqUserId body newId now now' s =
           ((201, fst (createWorkout z newId now now' (body\<lparr>iw_userId := reqUserId\<rparr>) s)),
            snd (createWorkout z newId now now' (body\<lparr>iw_userId := reqUserId\<rparr>) s))"
proof -
  have post: "postWorkout z reqUserId body newId now now' s =
           ((201, fst (createWorkout z newId now now' (body\<lparr>iw_userId := reqUserId\<rparr>) s)),
            snd (createWorkout z newId now now' (body\<lparr>iw_userId := reqUserId\<rparr>) s))"
    by (simp add: postWorkout_def Let_def split: prod.splits)
  show ?thesis
    unfolding w_def s'_def
    using workouts_createWorkout[of z newId now now' insertWorkout s]
      getUser_createWorkout_other[of _ insertWorkout z newId now now' s]
      getUser_createWorkout_owner[of insertWorkout s _ z newId now now']
      post
    by (simp add: createWorkout_snd healthMetrics_updateUserStreak scheduledWorkouts_updateUserStreak)
qed

theorem createWorkout_effect_witness:
  "''u2'' \<noteq> iw_userId (cardio ''u1'') \<and>
   getUser (iw_userId (cardio ''u1'')) twoUserStore \<noteq> None \<and>
   getUser ''u2'' twoUserStore \<noteq> None \<and>
   getUser ''u2'' (snd (createWorkout utcZone ''w1'' (atDay 11 0) (atDay 11 1) (cardio ''u1'') twoUserStore))
     = getUser ''u2'' twoUserStore \<and>
   userField currentStreak
     (getUser ''u1'' (snd (createWorkout utcZone ''w1'' (atDay 11 0) (atDay 11 1) (cardio ''u1'') twoUserStore)))
     = Some 1 \<and>
   snd (postWorkout utcZone ''u1'' (cardio ''u2'') ''w1'' (atDay 11 0) (atDay 11 1) twoUserStore)
     = snd (createWorkout utcZone ''w1'' (atDay 11 0) (atDay 11 1) (cardio ''u1'') twoUserStore)"
proof -
  have ne: "''u2'' \<noteq> iw_userId (cardio ''u1'')" by (simp add: cardio_def)
  have u1: "getUser (iw_userId (cardio ''u1'')) twoUserStore \<noteq> None"
    by (simp add: store_defs sample_defs Let_def)
  have u2: "getUser ''u2'' twoUserStore \<noteq> None"
    by (simp add: store_defs sample_defs Let_def)
  note eff = createWorkout_effect[of utcZone "''w1''" "atDay 11 0" "atDay 11 1" "cardio ''u1''" twoUserStore
      "''u1''" "cardio ''u2''"]
  have other: "getUser ''u2'' (snd (createWorkout utcZone ''w1'' (atDay 11 0) (atDay 11 1) (cardio ''u1'') twoUserStore))
     = getUser ''u2'' twoUserStore"
    using eff ne by blast
  have body: "(cardio ''u2'')\<lparr>iw_userId := ''u1''\<rparr> = cardio ''u1''" by (simp add: cardio_def)
  have post: "snd (postWorkout utcZone ''u1'' (cardio ''u2'') ''w1'' (atDay 11 0) (atDay 11 1) twoUserStore)
     = snd (createWorkout utcZone ''w1'' (atDay 11 0) (atDay 11 1) (cardio ''u1'') twoUserStore)"
    using eff by (simp add: body)
  have cs: "userField currentStreak
     (getUser ''u1'' (snd (createWorkout utcZone ''w1'' (atDay 11 0) (atDay 11 1) (cardio ''u1'') twoUserStore)))
     = Some 1"
    by (simp add: store_defs sample_defs Let_def)
  show ?thesis by (intro conjI) (rule ne u1 u2 other cs post)+
qed

text \<open>
  C3. After \<open>createWorkout\<close> for a stored user, the stored currentStreak is the newly
  computed streak and the stored longestStreak is the maximum of the previous longestStreak
  (\<open>null\<close> read as 0) and that new currentStreak. For every user, longestStreak does not
  decrease over one insertion, nor over any sequence of insertions.
\<close>

theorem longestStreak_ratchet:
  fixes z newId now now' insertWorkout s
  defines "s' \<equiv> snd (createWorkout z newId now now' insertWorkout s)"
  shows "(\<forall>user. getUser (iw_userId insertWorkout) s = Some user \<longrightarrow>
            storedCurrentStreak (iw_userId insertWorkout) s'
              = calcCurrentStreak z now' (getWorkoutsByUserId (iw_userId insertWorkout) s') \<and>
            userField longestStreak (getUser (iw_userId insertWorkout) s')
              = Some (max (orZero (longestStreak user)) (storedCurrentStreak (iw_userId insertWorkout) s'))) \<and>
         (\<forall>uid. storedLongestStreak uid s \<le> storedLongestStreak uid s') \<and>
         (\<forall>uid reqs. storedLongestStreak uid s \<le> storedLongestStreak uid (createWorkouts z reqs s))"
  unfolding s'_def
  using getUser_createWorkout_owner[of insertWorkout s _ z newId now now']
    storedLongestStreak_createWorkout[of _ s z newId now now' insertWorkout]
    storedLongestStreak_createWorkouts[of _ s z]
  by (simp add: storedCurrentStreak_def userField_def orZero_def)

theorem longestStreak_ratchet_witness:
  "getUser (iw_userId (cardio ''u1'')) (oneUserStore None) \<noteq> None \<and>
   userField longestStreak
     (getUser ''u1'' (snd (createWorkout utcZone ''w1'' (atDay 11 0) (atDay 11 1) (cardio ''u1'') (oneUserStore None))))
     = Some 1 \<and>
   storedLongestStreak ''u1'' (oneUserStore None)
     \<le> storedLongestStreak ''u1''
          (createWorkouts utcZone [(''w1'', atDay 11 0, atDay 11 1, cardio ''u1''),
                           (''w2'', atDay 11 5, atDay 11 6, cardio ''u1'')] (oneUserStore None))"
  using longestStreak_ratchet[of "cardio ''u1''" "oneUserStore None" utcZone "''w1''" "atDay 11 0" "atDay 11 1"]
  by (simp add: store_defs sample_defs Let_def)

section \<open>The order between longestStreak and currentStreak\<close>

lemma streakOrdered_mapSet:
  "streakOrdered v \<Longrightarrow> \<forall>u\<in>set (mapValues m). streakOrdered u \<Longrightarrow>
   \<forall>u\<in>set (mapValues (mapSet k v m)). streakOrdered u"
  using values_mapSet[of k v m] by auto

lemma streakOrdered_createUser:
  assumes "\<forall>u\<in>set (mapValues (users s)). streakOrdered u"
  shows "\<forall>u\<in>set (mapValues (users (snd (createUser newId now insertUser s)))). streakOrdered u"
proof -
  have "streakOrdered (fst (createUser newId now insertUser s))"
    by (simp add: createUser_def Let_def streakOrdered_def orZero_def)
  from streakOrdered_mapSet[OF this assms, of newId]
  show ?thesis by (simp add: createUser_def Let_def)
qed

lemma streakOrdered_updateUser:
  assumes inv: "\<forall>u\<in>set (mapValues (users s)). streakOrdered u"
    and ok: "\<And>user. mapGet (users s) uid = Some user \<Longrightarrow> streakOrdered (spreadUser user updates)"
  shows "\<forall>u\<in>set (mapValues (users (snd (updateUser uid updates s)))). streakOrdered u"
proof (cases "mapGet (users s) uid")
  case None
  then show ?thesis using inv by (simp add: updateUser_def)
next
  case (Some user)
  from streakOrdered_mapSet[OF ok[OF Some] inv, of uid]
  show ?thesis using Some by (simp add: updateUser_def Let_def)
qed

lemma streakOrdered_spread_keeps:
  assumes "keepsStreakFields updates" "streakOrdered user"
  shows "streakOrdered (spreadUser user updates)"
  using assms by (simp add: keepsStreakFields_def streakOrdered_def spreadUser_def spread_def)

lemma streakOrdered_spread_streak:
  "streakOrdered (spreadUser user (streakUpdates cs (max a cs)))"
  by (simp add: streakOrdered_def spreadUser_def spread_def streakUpdates_def emptyPartialUser_def orZero_def)

lemma streakOrdered_updateUserStreak:
  assumes inv: "\<forall>u\<in>set (mapValues (users s)). streakOrdered u"
  shows "\<forall>u\<in>set (mapValues (users (updateUserStreak z userId now s))). streakOrdered u"
proof (cases "getUser userId s")
  case None
  then show ?thesis using inv by (simp add: updateUserStreak_def)
next
  case (Some user)
  have "\<forall>u\<in>set (mapValues (users (snd (updateUser userId
           (streakUpdates (calcCurrentStreak z now (getWorkoutsByUserId userId s))
              (max (orZero (longestStreak user)) (calcCurrentStreak z now (getWorkoutsByUserId userId s)))) s)))).
          streakOrdered u"
    by (rule streakOrdered_updateUser[OF inv]) (rule streakOrdered_spread_streak)
  then show ?thesis using Some by (simp add: updateUserStreak_def Let_def)
qed

lemma reachable_streakOrdered:
  "reachable z s \<Longrightarrow> \<forall>u\<in>set (mapValues (users s)). streakOrdered u"
proof (induction rule: reachable.induct)
  case reach_new
  show ?case by (simp add: newMemStorage_def mapValues_def)
next
  case (reach_createUser s newId now insertUser)
  then show ?case by (simp add: streakOrdered_createUser)
next
  case (reach_updateUser s updates uid)
  show ?case
  proof (rule streakOrdered_updateUser[OF reach_updateUser.IH])
    fix user assume "mapGet (users s) uid = Some user"
    then have "user \<in> set (mapValues (users s))" by (rule mapGet_in_values)
    then have "streakOrdered user" using reach_updateUser.IH by simp
    with reach_updateUser.hyps(2) show "streakOrdered (spreadUser user updates)"
      by (rule streakOrdered_spread_keeps)
  qed
next
  case (reach_createWorkout s newId now now' insertWorkout)
  let ?s1 = "s\<lparr>workouts := mapSet newId (fst (createWorkout z newId now now' insertWorkout s)) (workouts s)\<rparr>"
  have "\<forall>u\<in>set (mapValues (users ?s1)). streakOrdered u" using reach_createWorkout.IH by simp
  then have "\<forall>u\<in>set (mapValues (users (updateUserStreak z (iw_userId insertWorkout) now' ?s1))). streakOrdered u"
    by (rule streakOrdered_updateUserStreak)
  then show ?case by (simp add: createWorkout_snd)
next
  case (reach_updateWorkout s wid workoutUpdates)
  then show ?case by (simp add: updateWorkout_def Let_def split: option.splits)
next
  case (reach_deleteWorkout s wid)
  then show ?case by (simp add: deleteWorkout_def)
next
  case (reach_createHealthMetrics s newId now insertMetrics)
  then show ?case by (simp add: createHealthMetrics_def Let_def)
next
  case (reach_createScheduledWorkout s newId now insertScheduled)
  then show ?case by (simp add: createScheduledWorkout_def Let_def)
next
  case (reach_updateScheduledWorkout s wid scheduledUpdates)
  then show ?case by (simp add: updateScheduledWorkout_def Let_def split: option.splits)
next
  case (reach_deleteScheduledWorkout s wid)
  then show ?case by (simp add: deleteScheduledWorkout_def)
qed

text \<open>
  C4 as stated fails on the profile-update path: \<open>PATCH /api/user/profile\<close> hands the
  request body to \<open>updateUser\<close>, which spreads any supplied field over the user. A body
  with \<open>currentStreak = 5\<close> on a fresh user leaves currentStreak 5 above longestStreak 0.
\<close>

theorem profile_update_breaks_streak_order_counterexample:
  "userField currentStreak (getUser ''u1''
      (snd (patchUserProfile ''u1'' (emptyPartialUser\<lparr>pu_currentStreak := Some (Some 5)\<rparr>) (oneUserStore None))))
     = Some 5 \<and>
   userField longestStreak (getUser ''u1''
      (snd (patchUserProfile ''u1'' (emptyPartialUser\<lparr>pu_currentStreak := Some (Some 5)\<rparr>) (oneUserStore None))))
     = Some 0 \<and>
   \<not> (storedLongestStreak ''u1''
        (snd (patchUserProfile ''u1'' (emptyPartialUser\<lparr>pu_currentStreak := Some (Some 5)\<rparr>) (oneUserStore None)))
      \<ge> storedCurrentStreak ''u1''
        (snd (patchUserProfile ''u1'' (emptyPartialUser\<lparr>pu_currentStreak := Some (Some 5)\<rparr>) (oneUserStore None))))"
  by (simp add: patchUserProfile_def store_defs sample_defs Let_def)

text \<open>
  C4, amended. In every store reached from the empty store by the mutating methods of the
  store (user creation, workout insertion with its streak recomputation, workout update
  and deletion, health-metrics insertion, scheduled-workout creation, update and deletion,
  and user updates, the profile-update path included, whose supplied fields include
  neither currentStreak nor longestStreak), every stored user has longestStreak at least
  currentStreak (\<open>null\<close> read as 0). This holds in every zone of the server.
\<close>

theorem reachable_longest_ge_current:
  assumes "reachable z s"
  shows "(\<forall>uid u. getUser uid s = Some u \<longrightarrow> orZero (longestStreak u) \<ge> orZero (currentStreak u)) \<and>
         (\<forall>uid. storedLongestStreak uid s \<ge> storedCurrentStreak uid s)"
proof -
  have inv: "\<forall>u\<in>set (mapValues (users s)). streakOrdered u"
    using assms by (rule reachable_streakOrdered)
  have a: "\<forall>uid u. getUser uid s = Some u \<longrightarrow> orZero (longestStreak u) \<ge> orZero (currentStreak u)"
  proof (intro allI impI)
    fix uid u assume "getUser uid s = Some u"
    then have "u \<in> set (mapValues (users s))" unfolding getUser_def by (rule mapGet_in_values)
    then show "orZero (longestStreak u) \<ge> orZero (currentStreak u)"
      using inv by (simp add: streakOrdered_def)
  qed
  have b: "\<forall>uid. storedLongestStreak uid s \<ge> storedCurrentStreak uid s"
  proof
    fix uid show "storedLongestStreak uid s \<ge> storedCurrentStreak uid s"
      using a by (cases "getUser uid s")
        (simp_all add: storedLongestStreak_def storedCurrentStreak_def userField_def orZero_def)
  qed
  show ?thesis using a b by blast
qed

theorem reachable_longest_ge_current_witness:
  "reachable utcZone busyStore \<and>
   getUser ''u1'' busyStore \<noteq> None \<and>
   getScheduledWorkout ''p1'' busyStore \<noteq> None \<and>
   storedCurrentStreak ''u1'' busyStore = 1 \<and>
   storedLongestStreak ''u1'' busyStore \<ge> storedCurrentStreak ''u1'' busyStore"
proof -
  have r0: "reachable utcZone (oneUserStore None)"
    unfolding oneUserStore_def by (rule reach_createUser[OF reach_new])
  have k: "keepsStreakFields (emptyPartialUser\<lparr>pu_currentWeight := Some (Some (180::real))\<rparr>)"
    by (simp add: keepsStreakFields_def emptyPartialUser_def)
  have r: "reachable utcZone busyStore"
    unfolding busyStore_def
    by (rule reach_updateUser[OF reach_updateWorkout[OF reach_createWorkout[OF
          reach_updateScheduledWorkout[OF reach_createScheduledWorkout[OF r0]]]] k])
  have g: "getUser ''u1'' busyStore \<noteq> None"
    by (simp add: busyStore_def store_defs sample_defs updateWorkout_def updateScheduledWorkout_def Let_def)
  have p: "getScheduledWorkout ''p1'' busyStore \<noteq> None"
    by (simp add: busyStore_def store_defs sample_defs updateWorkout_def updateScheduledWorkout_def
        getScheduledWorkout_def mapGet_mapSet Let_def)
  have c: "storedCurrentStreak ''u1'' busyStore = 1"
    by (simp add: busyStore_def store_defs sample_defs updateWorkout_def updateScheduledWorkout_def Let_def)
  have le: "storedLongestStreak ''u1'' busyStore \<ge> storedCurrentStreak ''u1'' busyStore"
    using reachable_longest_ge_current[OF r] by blast
  show ?thesis by (intro conjI) (rule r g p c le)+
qed

section \<open>Listings\<close>

lemma sorted_sortDescending:
  "sorted_wrt (\<lambda>a b. key b \<le> key a) (sortDescending key xs)"
proof -
  have "sorted (map (\<lambda>x. - key x) (sort_key (\<lambda>x. - key x) xs))" by (rule sorted_sort_key)
  then show ?thesis by (simp add: sortDescending_def sorted_map)
qed

lemma set_sortDescending: "set (sortDescending key xs) = set xs"
  by (simp add: sortDescending_def)

lemma length_sortDescending: "length (sortDescending key xs) = length xs"
  by (simp add: sortDescending_def)

lemma filter_sortDescending:
  "filter P (sortDescending key xs) = sortDescending key (filter P xs)"
  by (simp add: sortDescending_def filter_sort)

lemma sortDescending_stable:
  "filter (\<lambda>x. key x = k) (sortDescending key xs) = filter (\<lambda>x. key x = k) xs"
  using sort_key_stable[of "\<lambda>x. - key x" "- k" xs] by (simp add: sortDescending_def)

lemma sorted_sortAscending:
  "sorted_wrt (\<lambda>a b. key a \<le> key b) (sortAscending key xs)"
proof -
  have "sorted (map key (sort_key key xs))" by (rule sorted_sort_key)
  then show ?thesis by (simp add: sortAscending_def sorted_map)
qed

lemma sortAscending_stable:
  "filter (\<lambda>x. key x = k) (sortAscending key xs) = filter (\<lambda>x. key x = k) xs"
  by (simp add: sortAscending_def sort_key_stable)

lemma set_sortAscending: "set (sortAscending key xs) = set xs"
  by (simp add: sortAscending_def)

text \<open>A record appended to the values is listed after the earlier records of its key.\<close>

lemma sortDescending_appended:
  "filter (\<lambda>x. key x = t) (sortDescending key (filter P (vals @ [v])))
     = filter (\<lambda>x. key x = t) (sortDescending key (filter P vals))
       @ (if P v \<and> key v = t then [v] else [])"
  by (simp add: sortDescending_stable)

lemma sortAscending_appended:
  "filter (\<lambda>x. key x = t) (sortAscending key (filter P (vals @ [v])))
     = filter (\<lambda>x. key x = t) (sortAscending key (filter P vals))
       @ (if P v \<and> key v = t then [v] else [])"
  by (simp add: sortAscending_stable)

lemma listing_after_createWorkout:
  assumes "mapGet (workouts s) newId = None"
  shows "filter (\<lambda>w. createdTime w = t) (getWorkoutsByUserId uid (snd (createWorkout z newId now now' iw s)))
     = filter (\<lambda>w. createdTime w = t) (getWorkoutsByUserId uid s)
       @ (if iw_userId iw = uid \<and> now = t then [fst (createWorkout z newId now now' iw s)] else [])"
proof -
  let ?w = "fst (createWorkout z newId now now' iw s)"
  have vals: "mapValues (workouts (snd (createWorkout z newId now now' iw s))) = mapValues (workouts s) @ [?w]"
    unfolding workouts_createWorkout using assms by (rule values_mapSet_fresh)
  have w: "w_userId ?w = iw_userId iw" "createdTime ?w = now"
    by (simp_all add: fst_createWorkout createdTime_def dateOf_def)
  show ?thesis
    unfolding getWorkoutsByUserId_def vals sortDescending_appended by (simp add: w)
qed

lemma listing_after_createHealthMetrics:
  assumes "mapGet (healthMetrics s) newId = None"
  shows "filter (\<lambda>m. metricsTime m = t) (getHealthMetricsByUserId uid (snd (createHealthMetrics newId now im s)))
     = filter (\<lambda>m. metricsTime m = t) (getHealthMetricsByUserId uid s)
       @ (if ihm_userId im = uid \<and> now = t then [fst (createHealthMetrics newId now im s)] else [])"
proof -
  let ?m = "fst (createHealthMetrics newId now im s)"
  have "healthMetrics (snd (createHealthMetrics newId now im s)) = mapSet newId ?m (healthMetrics s)"
    by (simp add: createHealthMetrics_def Let_def)
  then have vals: "mapValues (healthMetrics (snd (createHealthMetrics newId now im s)))
                     = mapValues (healthMetrics s) @ [?m]"
    using values_mapSet_fresh[OF assms] by simp
  have m: "hm_userId ?m = ihm_userId im" "metricsTime ?m = now"
    by (simp_all add: createHealthMetrics_def Let_def metricsTime_def dateOf_def)
  show ?thesis
    unfolding getHealthMetricsByUserId_def vals sortDescending_appended by (simp add: m)
qed

lemma listing_after_createScheduledWorkout:
  assumes "mapGet (scheduledWorkouts s) newId = None"
  shows "filter (\<lambda>w. sw_scheduledDate w = t)
           (getScheduledWorkoutsByUserId uid (snd (createScheduledWorkout newId now isw s)))
     = filter (\<lambda>w. sw_scheduledDate w = t) (getScheduledWorkoutsByUserId uid s)
       @ (if isw_userId isw = uid \<and> isw_scheduledDate isw = t
          then [fst (createScheduledWorkout newId now isw s)] else [])"
proof -
  let ?w = "fst (createScheduledWorkout newId now isw s)"
  have "scheduledWorkouts (snd (createScheduledWorkout newId now isw s))
          = mapSet newId ?w (scheduledWorkouts s)"
    by (simp add: createScheduledWorkout_def Let_def)
  then have vals: "mapValues (scheduledWorkouts (snd (createScheduledWorkout newId now isw s)))
                     = mapValues (scheduledWorkouts s) @ [?w]"
    using values_mapSet_fresh[OF assms] by simp
  have w: "sw_userId ?w = isw_userId isw" "sw_scheduledDate ?w = isw_scheduledDate isw"
    by (simp_all add: createScheduledWorkout_def Let_def)
  show ?thesis
    unfolding getScheduledWorkoutsByUserId_def vals sortAscending_appended by (simp add: w)
qed

text \<open>
  C7. The workouts and the health metrics of a user are listed by descending creation
  time, the scheduled workouts by ascending scheduled date. Each listing holds exactly the
  user's records, and the records of any one timestamp \<open>t\<close> appear in the order in which the
  store iterates them. That order is the insertion order: a record inserted under a new
  identifier is listed after every record of its timestamp that was inserted before it, the
  earlier records keeping their order, and it does not enter the listing of another user
  or the records of another timestamp.
\<close>

theorem listings_ordered_and_stable:
  "sorted_wrt (\<lambda>a b. createdTime a \<ge> createdTime b) (getWorkoutsByUserId uid s) \<and>
   sorted_wrt (\<lambda>a b. metricsTime a \<ge> metricsTime b) (getHealthMetricsByUserId uid s) \<and>
   sorted_wrt (\<lambda>a b. sw_scheduledDate a \<le> sw_scheduledDate b) (getScheduledWorkoutsByUserId uid s) \<and>
   filter (\<lambda>w. createdTime w = t) (getWorkoutsByUserId uid s)
     = filter (\<lambda>w. createdTime w = t) (filter (\<lambda>w. w_userId w = uid) (mapValues (workouts s))) \<and>
   filter (\<lambda>m. metricsTime m = t) (getHealthMetricsByUserId uid s)
     = filter (\<lambda>m. metricsTime m = t) (filter (\<lambda>m. hm_userId m = uid) (mapValues (healthMetrics s))) \<and>
   filter (\<lambda>w. sw_scheduledDate w = t) (getScheduledWorkoutsByUserId uid s)
     = filter (\<lambda>w. sw_scheduledDate w = t) (filter (\<lambda>w. sw_userId w = uid) (mapValues (scheduledWorkouts s))) \<and>
   set (getWorkoutsByUserId uid s) = set (filter (\<lambda>w. w_userId w = uid) (mapValues (workouts s))) \<and>
   set (getHealthMetricsByUserId uid s) = set (filter (\<lambda>m. hm_userId m = uid) (mapValues (healthMetrics s))) \<and>
   set (getScheduledWorkoutsByUserId uid s)
     = set (filter (\<lambda>w. sw_userId w = uid) (mapValues (scheduledWorkouts s))) \<and>
   (mapGet (workouts s) newId = None \<longrightarrow>
      filter (\<lambda>w. createdTime w = t) (getWorkoutsByUserId uid (snd (createWorkout z newId now now' iw s)))
        = filter (\<lambda>w. createdTime w = t) (getWorkoutsByUserId uid s)
          @ (if iw_userId iw = uid \<and> now = t then [fst (createWorkout z newId now now' iw s)] else [])) \<and>
   (mapGet (healthMetrics s) newId = None \<longrightarrow>
      filter (\<lambda>m. metricsTime m = t) (getHealthMetricsByUserId uid (snd (createHealthMetrics newId now im s)))
        = filter (\<lambda>m. metricsTime m = t) (getHealthMetricsByUserId uid s)
          @ (if ihm_userId im = uid \<and> now = t then [fst (createHealthMetrics newId now im s)] else [])) \<and>
   (mapGet (scheduledWorkouts s) newId = None \<longrightarrow>
      filter (\<lambda>w. sw_scheduledDate w = t)
           (getScheduledWorkoutsByUserId uid (snd (createScheduledWorkout newId now isw s)))
        = filter (\<lambda>w. sw_scheduledDate w = t) (getScheduledWorkoutsByUserId uid s)
          @ (if isw_userId isw = uid \<and> isw_scheduledDate isw = t
             then [fst (createScheduledWorkout newId now isw s)] else []))"
proof -
  have general:
    "sorted_wrt (\<lambda>a b. createdTime a \<ge> createdTime b) (getWorkoutsByUserId uid s) \<and>
     sorted_wrt (\<lambda>a b. metricsTime a \<ge> metricsTime b) (getHealthMetricsByUserId uid s) \<and>
     sorted_wrt (\<lambda>a b. sw_scheduledDate a \<le> sw_scheduledDate b) (getScheduledWorkoutsByUserId uid s) \<and>
     filter (\<lambda>w. createdTime w = t) (getWorkoutsByUserId uid s)
       = filter (\<lambda>w. createdTime w = t) (filter (\<lambda>w. w_userId w = uid) (mapValues (workouts s))) \<and>
     filter (\<lambda>m. metricsTime m = t) (getHealthMetricsByUserId uid s)
       = filter (\<lambda>m. metricsTime m = t) (filter (\<lambda>m. hm_userId m = uid) (mapValues (healthMetrics s))) \<and>
     filter (\<lambda>w. sw_scheduledDate w = t) (getScheduledWorkoutsByUserId uid s)
       = filter (\<lambda>w. sw_scheduledDate w = t) (filter (\<lambda>w. sw_userId w = uid) (mapValues (scheduledWorkouts s))) \<and>
     set (getWorkoutsByUserId uid s) = set (filter (\<lambda>w. w_userId w = uid) (mapValues (workouts s))) \<and>
     set (getHealthMetricsByUserId uid s) = set (filter (\<lambda>m. hm_userId m = uid) (mapValues (healthMetrics s))) \<and>
     set (getScheduledWorkoutsByUserId uid s)
       = set (filter (\<lambda>w. sw_userId w = uid) (mapValues (scheduledWorkouts s)))"
    unfolding getWorkoutsByUserId_def getHealthMetricsByUserId_def getScheduledWorkoutsByUserId_def
    by (simp only: sorted_sortDescending sorted_sortAscending sortDescending_stable set_sortDescending
        sortAscending_stable set_sortAscending simp_thms)
  show ?thesis
    using general listing_after_createWorkout[of s newId t uid z now now' iw]
      listing_after_createHealthMetrics[of s newId t uid now im]
      listing_after_createScheduledWorkout[of s newId t uid now isw]
    by blast
qed

lemmas listing_eval = getWorkoutsByUserId_def workouts_createWorkout fst_createWorkout
  oneUserStore_def createUser_def newMemStorage_def sortDescending_def mapValues_def
  createdTime_def dateOf_def cardio_def atDay_def msPerDay_def Let_def

theorem listings_ordered_and_stable_witness:
  "mapGet (workouts tieStoreA) ''w2'' = None \<and>
   map w_id (getWorkoutsByUserId ''u1'' tieStoreA) = [''w1''] \<and>
   map w_id (filter (\<lambda>w. createdTime w = atDay 11 7) (getWorkoutsByUserId ''u1'' tieStoreB))
     = [''w1'', ''w2''] \<and>
   map w_id (getWorkoutsByUserId ''u1'' tieStoreC) = [''w3'', ''w1'', ''w2'']"
proof -
  have fresh: "mapGet (workouts tieStoreA) ''w2'' = None"
    by (simp add: tieStoreA_def listing_eval)
  have a: "getWorkoutsByUserId ''u1'' tieStoreA = [sampleWorkout ''w1'' (atDay 11 7)]"
    by (simp add: tieStoreA_def sampleWorkout_def listing_eval)
  have w2: "fst (createWorkout utcZone ''w2'' (atDay 11 7) (atDay 11 9) (cardio ''u1'') tieStoreA)
              = sampleWorkout ''w2'' (atDay 11 7)"
    by (simp add: fst_createWorkout sampleWorkout_def cardio_def)
  have "filter (\<lambda>w. createdTime w = atDay 11 7) (getWorkoutsByUserId ''u1'' tieStoreB)
          = filter (\<lambda>w. createdTime w = atDay 11 7) (getWorkoutsByUserId ''u1'' tieStoreA)
            @ [fst (createWorkout utcZone ''w2'' (atDay 11 7) (atDay 11 9) (cardio ''u1'') tieStoreA)]"
    unfolding tieStoreB_def
    using fresh listings_ordered_and_stable[of "''u1''" tieStoreA "atDay 11 7" "''w2''" utcZone
        "atDay 11 7" "atDay 11 9" "cardio ''u1''"]
    by (simp add: cardio_def)
  then have b: "map w_id (filter (\<lambda>w. createdTime w = atDay 11 7) (getWorkoutsByUserId ''u1'' tieStoreB))
                  = [''w1'', ''w2'']"
    unfolding a w2 by (simp add: sampleWorkout_def createdTime_def dateOf_def)
  have a': "map w_id (getWorkoutsByUserId ''u1'' tieStoreA) = [''w1'']"
    unfolding a by (simp add: sampleWorkout_def)
  have c: "map w_id (getWorkoutsByUserId ''u1'' tieStoreC) = [''w3'', ''w1'', ''w2'']"
    by (simp add: tieStoreC_def tieStoreB_def tieStoreA_def listing_eval)
  show ?thesis by (intro conjI) (rule fresh a' b c)+
qed

section \<open>Dashboard statistics\<close>

text \<open>
  C8. The dashboard handler leaves the store as it found it (users, workouts, health
  metrics and scheduled workouts), and a second call at the same time on the store left by
  the first gives the same statistics.
\<close>

theorem getDashboardStats_pure_read:
  "snd (getDashboardStats ops z uid now s) = s \<and>
   users (snd (getDashboardStats ops z uid now s)) = users s \<and>
   workouts (snd (getDashboardStats ops z uid now s)) = workouts s \<and>
   healthMetrics (snd (getDashboardStats ops z uid now s)) = healthMetrics s \<and>
   scheduledWorkouts (snd (getDashboardStats ops z uid now s)) = scheduledWorkouts s \<and>
   fst (getDashboardStats ops z uid now (snd (getDashboardStats ops z uid now s)))
     = fst (getDashboardStats ops z uid now s)"
  by (simp add: getDashboardStats_def Let_def)

section \<open>The streak computation\<close>

text \<open>
  C1, observed behaviour. The loop compares the day difference of the \<open>i\<close>-th workout with
  \<open>i\<close>, so a second workout on one day ends the count. With one workout yesterday and two
  today the computed streak is 1, where the streak over the distinct active days is 2; in
  the store, the second workout of today lowers the stored currentStreak from 2 to 1.
\<close>

theorem same_day_workouts_cut_streak:
  "calcCurrentStreak utcZone (atDay 11 6000)
     [sampleWorkout ''w1'' (atDay 10 1000), sampleWorkout ''w2'' (atDay 11 1000),
      sampleWorkout ''w3'' (atDay 11 5000)] = 1 \<and>
   specCurrentStreak utcZone (atDay 11 6000)
     [sampleWorkout ''w1'' (atDay 10 1000), sampleWorkout ''w2'' (atDay 11 1000),
      sampleWorkout ''w3'' (atDay 11 5000)] = 2 \<and>
   storedCurrentStreak ''u1''
     (createWorkouts utcZone [(''w1'', atDay 10 1000, atDay 10 1001, cardio ''u1''),
                      (''w2'', atDay 11 1000, atDay 11 1001, cardio ''u1'')] (oneUserStore None)) = 2 \<and>
   storedCurrentStreak ''u1''
     (createWorkouts utcZone [(''w1'', atDay 10 1000, atDay 10 1001, cardio ''u1''),
                      (''w2'', atDay 11 1000, atDay 11 1001, cardio ''u1''),
                      (''w3'', atDay 11 5000, atDay 11 5001, cardio ''u1'')] (oneUserStore None)) = 1"
  by (simp add: store_defs sample_defs specCurrentStreak_def activeDays_def
      calendarDay_def Let_def upt_rec)

subsection \<open>A day of 23 hours\<close>

lemma ny_midnight:
  "setHours0 newYork2026 march8 = 1772946000000"
  "setHours0 newYork2026 march9 = 1773028800000"
  "setHours0 newYork2026 march9later = 1773028800000"
  by (simp_all add: setHours0_def localTime_def utcOfLocal_def newYork2026_def
      march8_def march9_def march9later_def msPerDay_def)

lemma ny_day:
  "calendarDay newYork2026 march8 = 20520"
  "calendarDay newYork2026 march9 = 20521"
  "calendarDay newYork2026 march9later = 20521"
  by (simp_all add: calendarDay_def localTime_def newYork2026_def
      march8_def march9_def march9later_def msPerDay_def)

lemma march_order: "march8 \<le> march9" "\<not> march9 \<le> march8"
  by (simp_all add: march8_def march9_def)

lemma createdTime_sample: "createdTime (sampleWorkout wid t) = t"
  by (simp add: createdTime_def sampleWorkout_def dateOf_def)

lemma ny_daysDiff:
  "daysDiff newYork2026 1773028800000 (sampleWorkout wid march9) = 0"
  "daysDiff newYork2026 1773028800000 (sampleWorkout wid march8) = 0"
  by (simp_all add: daysDiff_def createdTime_sample ny_midnight msPerDay_def)

lemma ny_sorted:
  "sortDescending createdTime [sampleWorkout a march8, sampleWorkout b march9]
     = [sampleWorkout b march9, sampleWorkout a march8]"
  "sortDescending createdTime [sampleWorkout b march9, sampleWorkout a march8]
     = [sampleWorkout b march9, sampleWorkout a march8]"
  "sortDescending createdTime [sampleWorkout a march8] = [sampleWorkout a march8]"
  by (simp_all add: sortDescending_def createdTime_sample march_order)

lemma ny_calc:
  "calcCurrentStreak newYork2026 march9later [sampleWorkout a march8, sampleWorkout b march9] = 1"
  "calcCurrentStreak newYork2026 march9 [sampleWorkout b march9, sampleWorkout a march8] = 1"
  "calcCurrentStreak newYork2026 march9 [sampleWorkout a march8] = 1"
  by (simp_all add: calcCurrentStreak_def Let_def ny_sorted ny_midnight ny_daysDiff)

lemma ny_spec:
  "specCurrentStreak newYork2026 march9later [sampleWorkout a march8, sampleWorkout b march9] = 2"
  "specCurrentStreak newYork2026 march9 [sampleWorkout a march8] = 0"
  by (simp_all add: specCurrentStreak_def activeDays_def createdTime_sample ny_day upt_rec)

lemma ny_store:
  "storedCurrentStreak ''u1''
     (createWorkouts newYork2026 [(''w1'', march8, march8, cardio ''u1''),
                                  (''w2'', march9, march9, cardio ''u1'')] (oneUserStore None)) = 1"
proof -
  let ?S1 = "snd (createWorkout newYork2026 ''w1'' march8 march8 (cardio ''u1'') (oneUserStore None))"
  let ?S2 = "snd (createWorkout newYork2026 ''w2'' march9 march9 (cardio ''u1'') ?S1)"
  have u0: "getUser ''u1'' (oneUserStore None) \<noteq> None"
    by (simp add: oneUserStore_def createUser_def newMemStorage_def getUser_def Let_def)
  have "getUser ''u1'' ?S1 \<noteq> None" using u0 by (rule getUser_createWorkout_stays)
  then obtain user where user: "getUser (iw_userId (cardio ''u1'')) ?S1 = Some user"
    by (auto simp: cardio_def)
  have uid: "iw_userId (cardio ''u1'') = ''u1''" by (simp add: cardio_def)
  have vals: "filter (\<lambda>w. w_userId w = ''u1'') (mapValues (workouts ?S2))
                = [sampleWorkout ''w1'' march8, sampleWorkout ''w2'' march9]"
    by (simp add: workouts_createWorkout fst_createWorkout oneUserStore_def createUser_def
        newMemStorage_def mapValues_def cardio_def Let_def sampleWorkout_def)
  have lst: "getWorkoutsByUserId (iw_userId (cardio ''u1'')) ?S2
               = [sampleWorkout ''w2'' march9, sampleWorkout ''w1'' march8]"
    unfolding uid getWorkoutsByUserId_def vals by (rule ny_sorted(1))
  have "userField currentStreak (getUser (iw_userId (cardio ''u1'')) ?S2)
          = Some (calcCurrentStreak newYork2026 march9 [sampleWorkout ''w2'' march9, sampleWorkout ''w1'' march8])"
    using getUser_createWorkout_owner[OF user, of newYork2026 "''w2''" march9 march9]
    unfolding lst by (simp add: userField_def)
  then have "storedCurrentStreak ''u1'' ?S2 = 1"
    by (simp add: storedCurrentStreak_def ny_calc orZero_def cardio_def)
  then show ?thesis by simp
qed

text \<open>
  C2, observed behaviour. The day difference is \<open>Math.floor\<close> of the distance between two
  local midnights divided by 24 hours. Where the server's zone has a day of 23 hours, the
  midnights of that day and the next are 23 hours apart and the difference comes out 0
  instead of 1. In New York, 2026-03-08 is such a day. With one workout at 13:00 on
  2026-03-08 and one at 13:00 on 2026-03-09 (two consecutive calendar days, one workout
  each), the streak computed on 2026-03-09 is 1 where the claim gives 2, also in the store
  after the two insertions; with the workout of 2026-03-08 alone, the streak computed on
  2026-03-09, a day without workout, is 1 where the claim gives 0.
\<close>

theorem short_day_miscounts_streak:
  "calendarDay newYork2026 march9 = calendarDay newYork2026 march8 + 1 \<and>
   calendarDay newYork2026 march9later = calendarDay newYork2026 march9 \<and>
   setHours0 newYork2026 march9 - setHours0 newYork2026 march8 = 23 * 3600000 \<and>
   calcCurrentStreak newYork2026 march9later
     [sampleWorkout ''w1'' march8, sampleWorkout ''w2'' march9] = 1 \<and>
   specCurrentStreak newYork2026 march9later
     [sampleWorkout ''w1'' march8, sampleWorkout ''w2'' march9] = 2 \<and>
   storedCurrentStreak ''u1''
     (createWorkouts newYork2026 [(''w1'', march8, march8, cardio ''u1''),
                                  (''w2'', march9, march9, cardio ''u1'')] (oneUserStore None)) = 1 \<and>
   calcCurrentStreak newYork2026 march9 [sampleWorkout ''w1'' march8] = 1 \<and>
   specCurrentStreak newYork2026 march9 [sampleWorkout ''w1'' march8] = 0"
  by (intro conjI; (rule ny_calc ny_spec ny_store | simp add: ny_day ny_midnight))

subsection \<open>Zones with a fixed offset\<close>

text \<open>
  In a zone whose offset from UTC never changes, every local day has 24 hours, and the
  loop counts consecutive days with one workout each.
\<close>

lemma msPerDay_pos: "0 < msPerDay"
  by (simp add: msPerDay_def)

lemma setHours0_fixed:
  assumes "\<And>t. tzaOfUtc z t = c" "\<And>t. tzaOfLocal z t = c"
  shows "setHours0 z t = calendarDay z t * msPerDay - c"
proof -
  have "localTime z t - localTime z t mod msPerDay = localTime z t div msPerDay * msPerDay"
    by (rule minus_mod_eq_div_mult)
  then show ?thesis by (simp add: setHours0_def utcOfLocal_def calendarDay_def assms)
qed

lemma daysDiff_fixed:
  assumes "\<And>t. tzaOfUtc z t = c" "\<And>t. tzaOfLocal z t = c"
  shows "daysDiff z (setHours0 z now) w = calendarDay z now - calendarDay z (createdTime w)"
proof -
  have nz: "msPerDay \<noteq> 0" using msPerDay_pos by simp
  have "(calendarDay z now * msPerDay - c) - (calendarDay z (createdTime w) * msPerDay - c)
        = (calendarDay z now - calendarDay z (createdTime w)) * msPerDay"
    by (simp add: left_diff_distrib)
  then have "((calendarDay z now * msPerDay - c) - (calendarDay z (createdTime w) * msPerDay - c)) div msPerDay
        = calendarDay z now - calendarDay z (createdTime w)"
    using nz by simp
  then show ?thesis unfolding daysDiff_def setHours0_fixed[OF assms] .
qed

lemma calendarDay_mono_fixed:
  assumes "\<And>t. tzaOfUtc z t = c"
  shows "a \<le> b \<Longrightarrow> calendarDay z a \<le> calendarDay z b"
  unfolding calendarDay_def localTime_def assms
  by (rule zdiv_mono1) (simp_all add: msPerDay_pos)

lemma streakLoop_run:
  "sorted (map (daysDiff z today) ws) \<Longrightarrow> \<forall>w\<in>set ws. i \<le> daysDiff z today w \<Longrightarrow> i \<le> n \<Longrightarrow>
   \<forall>k. i \<le> k \<and> k < n \<longrightarrow> length (filter (\<lambda>w. daysDiff z today w = k) ws) = 1 \<Longrightarrow>
   \<forall>w\<in>set ws. daysDiff z today w \<noteq> n \<Longrightarrow>
   streakLoop z today i cs ws = cs + (n - i)"
proof (induction ws arbitrary: i cs)
  case Nil
  have "\<not> i < n"
  proof
    assume "i < n"
    then have "length (filter (\<lambda>w. daysDiff z today w = i) []) = 1"
      using Nil.prems(4) by blast
    then show False by simp
  qed
  then have "n - i = 0" using Nil.prems(3) by simp
  then show ?case by simp
next
  case (Cons w ws)
  show ?case
  proof (cases "i < n")
    case False
    then have eq: "i = n" using Cons.prems(3) by simp
    have "daysDiff z today w \<noteq> n" using Cons.prems(5) by simp
    then show ?thesis using eq by simp
  next
    case True
    have one: "length (filter (\<lambda>w. daysDiff z today w = i) (w # ws)) = 1"
      using Cons.prems(4) True by blast
    have hd_i: "daysDiff z today w = i"
    proof (rule ccontr)
      assume ne: "daysDiff z today w \<noteq> i"
      then have "length (filter (\<lambda>w. daysDiff z today w = i) ws) = 1" using one by simp
      then have "filter (\<lambda>w. daysDiff z today w = i) ws \<noteq> []" by auto
      then obtain x where "x \<in> set (filter (\<lambda>w. daysDiff z today w = i) ws)"
        using last_in_set by blast
      then have x: "x \<in> set ws" "daysDiff z today x = i" by simp_all
      have "daysDiff z today w \<le> daysDiff z today x" using Cons.prems(1) x(1) by simp
      moreover have "i \<le> daysDiff z today w" using Cons.prems(2) by simp
      ultimately show False using ne x(2) by simp
    qed
    have "length (filter (\<lambda>w. daysDiff z today w = i) ws) = 0"
      using one hd_i by simp
    then have none_i: "\<forall>x\<in>set ws. daysDiff z today x \<noteq> i"
      by (simp add: filter_empty_conv)
    have ge: "\<forall>x\<in>set ws. i + 1 \<le> daysDiff z today x"
    proof
      fix x assume x: "x \<in> set ws"
      then have "i \<le> daysDiff z today x" using Cons.prems(2) by simp
      moreover have "daysDiff z today x \<noteq> i" using none_i x by simp
      ultimately show "i + 1 \<le> daysDiff z today x" by simp
    qed
    have cnt: "\<forall>k. i + 1 \<le> k \<and> k < n \<longrightarrow> length (filter (\<lambda>w. daysDiff z today w = k) ws) = 1"
    proof (intro allI impI)
      fix k assume k: "i + 1 \<le> k \<and> k < n"
      then have "i \<le> k \<and> k < n" by simp
      then have "length (filter (\<lambda>w. daysDiff z today w = k) (w # ws)) = 1"
        using Cons.prems(4) by blast
      moreover have "daysDiff z today w \<noteq> k" using hd_i k by simp
      ultimately show "length (filter (\<lambda>w. daysDiff z today w = k) ws) = 1" by simp
    qed
    have srt: "sorted (map (daysDiff z today) ws)" using Cons.prems(1) by simp
    have nn: "\<forall>w\<in>set ws. daysDiff z today w \<noteq> n" using Cons.prems(5) by simp
    have le: "i + 1 \<le> n" using True by simp
    have "streakLoop z today (i + 1) (cs + 1) ws = cs + 1 + (n - (i + 1))"
      by (rule Cons.IH[OF srt ge le cnt nn])
    then show ?thesis using hd_i by simp
  qed
qed

lemma calcCurrentStreak_consecutive_fixed:
  assumes fixed: "\<And>t. tzaOfUtc z t = c" "\<And>t. tzaOfLocal z t = c"
    and past: "\<forall>w\<in>set ws. createdTime w \<le> now"
    and one: "\<forall>k<n. length (workoutsOnDay z (calendarDay z now - int k) ws) = 1"
    and gap: "workoutsOnDay z (calendarDay z now - int n) ws = []"
  shows "calcCurrentStreak z now ws = int n"
proof -
  let ?today = "setHours0 z now"
  let ?L = "sortDescending createdTime ws"
  note dd = daysDiff_fixed[OF fixed]
  have flt: "\<And>k xs. filter (\<lambda>w. daysDiff z ?today w = k) xs = workoutsOnDay z (calendarDay z now - k) xs"
    unfolding workoutsOnDay_def dd by (rule filter_cong) auto
  have "sorted_wrt (\<lambda>a b. createdTime b \<le> createdTime a) ?L" by (rule sorted_sortDescending)
  then have "sorted_wrt (\<lambda>a b. daysDiff z ?today a \<le> daysDiff z ?today b) ?L"
  proof (rule sorted_wrt_mono_rel[rotated])
    fix a b assume "createdTime b \<le> createdTime a"
    then have "calendarDay z (createdTime b) \<le> calendarDay z (createdTime a)"
      by (rule calendarDay_mono_fixed[OF fixed(1)])
    then show "daysDiff z ?today a \<le> daysDiff z ?today b" by (simp add: dd)
  qed
  then have srt: "sorted (map (daysDiff z ?today) ?L)" by (simp add: sorted_map)
  have ge: "\<forall>w\<in>set ?L. 0 \<le> daysDiff z ?today w"
  proof
    fix w assume "w \<in> set ?L"
    then have "createdTime w \<le> now" using past by (simp add: set_sortDescending)
    then have "calendarDay z (createdTime w) \<le> calendarDay z now"
      by (rule calendarDay_mono_fixed[OF fixed(1)])
    then show "0 \<le> daysDiff z ?today w" by (simp add: dd)
  qed
  have len: "\<And>d. length (workoutsOnDay z d ?L) = length (workoutsOnDay z d ws)"
    by (simp add: workoutsOnDay_def filter_sortDescending length_sortDescending)
  have cnt: "\<forall>k. 0 \<le> k \<and> k < int n \<longrightarrow> length (filter (\<lambda>w. daysDiff z ?today w = k) ?L) = 1"
  proof (intro allI impI)
    fix k :: int assume k: "0 \<le> k \<and> k < int n"
    then have "nat k < n" by linarith
    then have "length (workoutsOnDay z (calendarDay z now - int (nat k)) ws) = 1" using one by blast
    then have "length (workoutsOnDay z (calendarDay z now - k) ws) = 1" using k by simp
    then show "length (filter (\<lambda>w. daysDiff z ?today w = k) ?L) = 1"
      by (simp only: flt len)
  qed
  have nn: "\<forall>w\<in>set ?L. daysDiff z ?today w \<noteq> int n"
  proof
    fix w assume "w \<in> set ?L"
    then have w: "w \<in> set ws" by (simp add: set_sortDescending)
    have "filter (\<lambda>w. daysDiff z ?today w = int n) ws = []" using gap by (simp only: flt)
    then show "daysDiff z ?today w \<noteq> int n" using w by (simp add: filter_empty_conv)
  qed
  have "streakLoop z ?today 0 0 ?L = 0 + (int n - 0)"
    by (rule streakLoop_run[OF srt ge _ cnt nn]) simp
  then show ?thesis by (simp add: calcCurrentStreak_def Let_def)
qed

lemma calcCurrentStreak_idle_today_fixed:
  assumes fixed: "\<And>t. tzaOfUtc z t = c" "\<And>t. tzaOfLocal z t = c"
    and idle: "workoutsOnDay z (calendarDay z now) ws = []"
  shows "calcCurrentStreak z now ws = 0"
proof (cases "sortDescending createdTime ws")
  case Nil
  then show ?thesis by (simp add: calcCurrentStreak_def Let_def)
next
  case (Cons w rest)
  then have "w \<in> set (sortDescending createdTime ws)" by simp
  then have w: "w \<in> set ws" by (simp add: set_sortDescending)
  have "calendarDay z (createdTime w) \<noteq> calendarDay z now"
    using idle w by (simp add: workoutsOnDay_def filter_empty_conv)
  then have "daysDiff z (setHours0 z now) w \<noteq> 0" by (simp add: daysDiff_fixed[OF fixed])
  then show ?thesis using Cons by (simp add: calcCurrentStreak_def Let_def)
qed

text \<open>
  In a zone with a fixed offset, for a stored user whose workouts all lie at or before the
  time of the computation: if each of the \<open>n\<close> days today, ..., today - (n - 1) has exactly
  one workout and day today - n has none, the recomputed currentStreak is \<open>n\<close>; and if today
  has no workout, it is 0.
\<close>

lemma streak_counts_consecutive_days_fixed_offset:
  assumes fixed: "\<And>t. tzaOfUtc z t = c" "\<And>t. tzaOfLocal z t = c"
    and user: "getUser userId s = Some user"
  shows "((\<forall>w\<in>set (getWorkoutsByUserId userId s). createdTime w \<le> now) \<and>
          (\<forall>k<n. length (workoutsOnDay z (calendarDay z now - int k) (getWorkoutsByUserId userId s)) = 1) \<and>
          workoutsOnDay z (calendarDay z now - int n) (getWorkoutsByUserId userId s) = []
          \<longrightarrow> userField currentStreak (getUser userId (updateUserStreak z userId now s)) = Some (int n)) \<and>
         (workoutsOnDay z (calendarDay z now) (getWorkoutsByUserId userId s) = []
          \<longrightarrow> userField currentStreak (getUser userId (updateUserStreak z userId now s)) = Some 0)"
proof -
  have stored: "userField currentStreak (getUser userId (updateUserStreak z userId now s))
                  = Some (calcCurrentStreak z now (getWorkoutsByUserId userId s))"
    using getUser_updateUserStreak[OF user, of z now] by (simp add: userField_def)
  show ?thesis
    unfolding stored
    using calcCurrentStreak_consecutive_fixed[OF fixed, of "getWorkoutsByUserId userId s" now n]
      calcCurrentStreak_idle_today_fixed[OF fixed, of now "getWorkoutsByUserId userId s"]
    by blast
qed

section \<open>Weight progress\<close>

lemmas stats_defs = getDashboardStats_def metricsWeight_def truthy_def orNumber_def orElse_def
  roundTenth_def exactOps_def

text \<open>
  C5 as stated fails where a weight is present and 0: \<open>||\<close> takes 0 for absent. With
  currentWeight 180, an oldest record of weight 0 and a latest record of weight 175, the
  handler falls back to 180 for the oldest weight and answers 175 - 180 = -5, where the
  claim's rule (fall back only when the weight is absent) gives 175 - 0 = 175. All the
  numbers of this computation are integers, on which the runtime's arithmetic is exact.
\<close>

theorem weightProgress_zero_weight_counterexample:
  "hm_weight (last (getHealthMetricsByUserId ''u1'' (weighedStore (Some 180) (Some 0) (Some 175)))) = Some 0 \<and>
   st_weightProgress (fst (getDashboardStats exactOps utcZone ''u1'' (atDay 12 0)
                             (weighedStore (Some 180) (Some 0) (Some 175))))
     = - 5 \<and>
   specWeightProgress exactOps (getUser ''u1'' (weighedStore (Some 180) (Some 0) (Some 175)))
     (getHealthMetricsByUserId ''u1'' (weighedStore (Some 180) (Some 0) (Some 175))) = 175 \<and>
   st_weightProgress (fst (getDashboardStats exactOps utcZone ''u1'' (atDay 12 0)
                             (weighedStore (Some 180) (Some 0) (Some 175))))
     \<noteq> specWeightProgress exactOps (getUser ''u1'' (weighedStore (Some 180) (Some 0) (Some 175)))
          (getHealthMetricsByUserId ''u1'' (weighedStore (Some 180) (Some 0) (Some 175)))"
  by (simp add: weighedStore_def specWeightProgress_def weightOrBaseline_def
      stats_defs store_defs sample_defs Let_def)

lemma latest_is_hd:
  "getHealthMetricsByUserId uid s \<noteq> [] \<Longrightarrow>
   metricsWeight (getLatestHealthMetrics uid s) = hm_weight (hd (getHealthMetricsByUserId uid s))"
  by (cases "getHealthMetricsByUserId uid s") (simp_all add: getLatestHealthMetrics_def metricsWeight_def)

lemma weightProgress_unfold:
  "st_weightProgress (fst (getDashboardStats ops z uid now s)) =
     roundTenth ops
       (if 2 \<le> length (getHealthMetricsByUserId uid s) \<and> truthy ops (userField currentWeight (getUser uid s))
        then (case userField currentWeight (getUser uid s) of
                None \<Rightarrow> nLiteral ops 0
              | Some userWeight \<Rightarrow>
                  nSub ops (orNumber ops (metricsWeight (getLatestHealthMetrics uid s)) userWeight)
                           (orNumber ops (hm_weight (getHealthMetricsByUserId uid s
                                                       ! (length (getHealthMetricsByUserId uid s) - 1)))
                                         userWeight))
        else nLiteral ops 0)"
  by (simp add: getDashboardStats_def Let_def cong: option.case_cong)

lemma sorted_desc_hd:
  "sorted_wrt (\<lambda>a b. key b \<le> (key a :: int)) xs \<Longrightarrow> x \<in> set xs \<Longrightarrow> key x \<le> key (hd xs)"
  by (cases xs) auto

lemma sorted_desc_last:
  "sorted_wrt (\<lambda>a b. key b \<le> (key a :: int)) xs \<Longrightarrow> x \<in> set xs \<Longrightarrow> key (last xs) \<le> key x"
proof (induction xs)
  case Nil
  then show ?case by simp
next
  case (Cons y ys)
  then show ?case by (cases ys) auto
qed

text \<open>
  C5, amended. \<open>weightProgress\<close> is the handler's rounding of 0, which is 0 where the
  runtime rounds 0 to 0, whenever the user has fewer than two health-metrics records or no
  baseline weight (no user, currentWeight absent, or currentWeight 0 or another falsy
  number). Otherwise it is latestWeight - oldestWeight rounded to one decimal place by
  \<open>Math.round(x * 10) / 10\<close> in the runtime's arithmetic, where latestWeight is the weight
  of the most recent record and oldestWeight the weight of the least recent record of the
  listing, each replaced by the user's currentWeight when it is absent or falsy (0). For
  currentWeight 180 and records of weight 178 (oldest) and 175 (latest) the value is -3.
\<close>

theorem weightProgress_amended:
  fixes ops z uid now s
  defines "ms \<equiv> getHealthMetricsByUserId uid s"
    and "wp \<equiv> st_weightProgress (fst (getDashboardStats ops z uid now s))"
  shows "(length ms < 2 \<or> \<not> truthy ops (userField currentWeight (getUser uid s))
            \<longrightarrow> wp = roundTenth ops (nLiteral ops 0)) \<and>
         (roundTenth ops (nLiteral ops 0) = nLiteral ops 0 \<and>
          (length ms < 2 \<or> \<not> truthy ops (userField currentWeight (getUser uid s)))
            \<longrightarrow> wp = nLiteral ops 0) \<and>
         (\<forall>u cw. 2 \<le> length ms \<and> getUser uid s = Some u \<and> currentWeight u = Some cw \<and> \<not> nFalsy ops cw \<longrightarrow>
            wp = roundTenth ops (nSub ops (orNumber ops (hm_weight (hd ms)) cw)
                                          (orNumber ops (hm_weight (last ms)) cw)) \<and>
            (\<forall>m\<in>set ms. metricsTime m \<le> metricsTime (hd ms)) \<and>
            (\<forall>m\<in>set ms. metricsTime (last ms) \<le> metricsTime m))"
proof -
  have srt: "sorted_wrt (\<lambda>a b. metricsTime b \<le> metricsTime a) ms"
    unfolding ms_def getHealthMetricsByUserId_def by (rule sorted_sortDescending)
  have zero: "length ms < 2 \<or> \<not> truthy ops (userField currentWeight (getUser uid s))
                \<longrightarrow> wp = roundTenth ops (nLiteral ops 0)"
    unfolding wp_def ms_def weightProgress_unfold by auto
  have main: "\<forall>u cw. 2 \<le> length ms \<and> getUser uid s = Some u \<and> currentWeight u = Some cw \<and> \<not> nFalsy ops cw \<longrightarrow>
            wp = roundTenth ops (nSub ops (orNumber ops (hm_weight (hd ms)) cw)
                                          (orNumber ops (hm_weight (last ms)) cw)) \<and>
            (\<forall>m\<in>set ms. metricsTime m \<le> metricsTime (hd ms)) \<and>
            (\<forall>m\<in>set ms. metricsTime (last ms) \<le> metricsTime m)"
  proof (intro allI impI)
    fix u cw
    assume h: "2 \<le> length ms \<and> getUser uid s = Some u \<and> currentWeight u = Some cw \<and> \<not> nFalsy ops cw"
    then have ne: "ms \<noteq> []" by auto
    have cwo: "userField currentWeight (getUser uid s) = Some cw" using h by (simp add: userField_def)
    have tr: "truthy ops (userField currentWeight (getUser uid s))" using h cwo by (simp add: truthy_def)
    have lat: "metricsWeight (getLatestHealthMetrics uid s) = hm_weight (hd ms)"
      unfolding ms_def using ne[unfolded ms_def] by (rule latest_is_hd)
    have old: "ms ! (length ms - 1) = last ms" using ne by (simp add: last_conv_nth)
    have a: "wp = roundTenth ops (nSub ops (orNumber ops (hm_weight (hd ms)) cw)
                                           (orNumber ops (hm_weight (last ms)) cw))"
      unfolding wp_def weightProgress_unfold
      using h tr cwo lat old by (simp add: ms_def)
    have c: "\<forall>m\<in>set ms. metricsTime m \<le> metricsTime (hd ms)"
      using sorted_desc_hd[OF srt] by blast
    have d: "\<forall>m\<in>set ms. metricsTime (last ms) \<le> metricsTime m"
      using sorted_desc_last[OF srt] by blast
    show "wp = roundTenth ops (nSub ops (orNumber ops (hm_weight (hd ms)) cw)
                                        (orNumber ops (hm_weight (last ms)) cw)) \<and>
            (\<forall>m\<in>set ms. metricsTime m \<le> metricsTime (hd ms)) \<and>
            (\<forall>m\<in>set ms. metricsTime (last ms) \<le> metricsTime m)"
      using a c d by blast
  qed
  show ?thesis using zero main by auto
qed

theorem weightProgress_amended_witness:
  "2 \<le> length (getHealthMetricsByUserId ''u1'' (weighedStore (Some 180) (Some 178) (Some 175))) \<and>
   userField currentWeight (getUser ''u1'' (weighedStore (Some 180) (Some 178) (Some 175))) = Some 180 \<and>
   \<not> nFalsy exactOps 180 \<and>
   hm_weight (last (getHealthMetricsByUserId ''u1'' (weighedStore (Some 180) (Some 178) (Some 175)))) = Some 178 \<and>
   hm_weight (hd (getHealthMetricsByUserId ''u1'' (weighedStore (Some 180) (Some 178) (Some 175)))) = Some 175 \<and>
   st_weightProgress (fst (getDashboardStats exactOps utcZone ''u1'' (atDay 12 0)
                             (weighedStore (Some 180) (Some 178) (Some 175))))
     = - 3 \<and>
   roundTenth exactOps (nLiteral exactOps 0) = nLiteral exactOps 0 \<and>
   length (getHealthMetricsByUserId ''u1'' (oneUserStore (Some 180))) < 2 \<and>
   st_weightProgress (fst (getDashboardStats exactOps utcZone ''u1'' (atDay 12 0) (oneUserStore (Some 180)))) = 0"
proof -
  let ?S = "weighedStore (Some 180) (Some 178) (Some 175)"
  let ?wp = "st_weightProgress (fst (getDashboardStats exactOps utcZone ''u1'' (atDay 12 0) ?S))"
  have len: "2 \<le> length (getHealthMetricsByUserId ''u1'' ?S)"
    by (simp add: weighedStore_def store_defs sample_defs Let_def)
  have old: "hm_weight (last (getHealthMetricsByUserId ''u1'' ?S)) = Some 178"
    by (simp add: weighedStore_def store_defs sample_defs Let_def)
  have new: "hm_weight (hd (getHealthMetricsByUserId ''u1'' ?S)) = Some 175"
    by (simp add: weighedStore_def store_defs sample_defs Let_def)
  obtain u where u: "getUser ''u1'' ?S = Some u" "currentWeight u = Some 180"
    by (simp add: weighedStore_def store_defs sample_defs Let_def)
  have cw: "userField currentWeight (getUser ''u1'' ?S) = Some 180"
    using u by (simp add: userField_def)
  have nz: "\<not> nFalsy exactOps 180" by (simp add: exactOps_def)
  from weightProgress_amended[of "''u1''" ?S exactOps utcZone "atDay 12 0"] len u nz
  have "?wp = roundTenth exactOps
                (nSub exactOps (orNumber exactOps (hm_weight (hd (getHealthMetricsByUserId ''u1'' ?S))) 180)
                               (orNumber exactOps (hm_weight (last (getHealthMetricsByUserId ''u1'' ?S))) 180))"
    by blast
  then have wp: "?wp = - 3"
    unfolding old new by (simp add: roundTenth_def orNumber_def exactOps_def)
  have r0: "roundTenth exactOps (nLiteral exactOps 0) = nLiteral exactOps 0"
    by (simp add: roundTenth_def exactOps_def)
  have few: "length (getHealthMetricsByUserId ''u1'' (oneUserStore (Some 180))) < 2"
    by (simp add: store_defs sample_defs Let_def)
  from weightProgress_amended[of "''u1''" "oneUserStore (Some 180)" exactOps utcZone "atDay 12 0"] few r0
  have "st_weightProgress (fst (getDashboardStats exactOps utcZone ''u1'' (atDay 12 0) (oneUserStore (Some 180))))
          = nLiteral exactOps 0"
    by blast
  then have z: "st_weightProgress (fst (getDashboardStats exactOps utcZone ''u1'' (atDay 12 0)
                  (oneUserStore (Some 180)))) = 0"
    by (simp add: exactOps_def)
  show ?thesis
    by (intro conjI) (rule len cw nz old new wp r0 few z)+
qed

end
